theory Spec2Isabelle
  imports Complex_Main "HOL-Library.Log_Nat"
begin

section \<open>Strings\<close>

text \<open>
  Strings are lists of bytes. \<^verbatim>\<open>trim\<close> removes the ASCII white space (space, tab, line
  feed, vertical tab, form feed, carriage return) and \<^verbatim>\<open>toLowerCase\<close> maps the letters A-Z;
  the white space and letters beyond ASCII that JavaScript also knows are outside the model.
\<close>

definition is_space :: "char \<Rightarrow> bool" where
  "is_space c = (c \<in> {CHR '' '', CHR 0x09, CHR 0x0A, CHR 0x0B, CHR 0x0C, CHR 0x0D})"

definition trim :: "string \<Rightarrow> string" where
  "trim s = rev (dropWhile is_space (rev (dropWhile is_space s)))"

definition lower_char :: "char \<Rightarrow> char" where
  "lower_char c =
     (let n = (of_char c :: nat)
      in if 65 \<le> n \<and> n \<le> 90 then
           (case c of Char b0 b1 b2 b3 b4 b5 b6 b7 \<Rightarrow> Char b0 b1 b2 b3 b4 True b6 b7)
         else c)"

definition toLowerCase :: "string \<Rightarrow> string" where
  "toLowerCase s = map lower_char s"

text \<open>\<^verbatim>\<open>s.replace(/^#/, '')\<close>: one leading \<^verbatim>\<open>#\<close> is removed.\<close>

definition strip_hash :: "string \<Rightarrow> string" where
  "strip_hash s = (case s of [] \<Rightarrow> [] | c # rest \<Rightarrow> if c = CHR ''#'' then rest else s)"

text \<open>
  \<^verbatim>\<open>orderNumber.replace(/^#/, '').trim()\<close>, as written in \<^verbatim>\<open>hasOpenRequestForOrder\<close>,
  \<^verbatim>\<open>create\<close> and \<^verbatim>\<open>findOrderByName\<close>.
\<close>

definition normalized :: "string \<Rightarrow> string" where
  "normalized orderNumber = trim (strip_hash orderNumber)"

section \<open>Order provider gateway: refunds (src/services/shopify.ts)\<close>

text \<open>
  JavaScript numbers are binary64 floating-point numbers. A finite one is modelled by the
  rational it is, and an arithmetic operation of the source by the exact operation followed
  by \<open>fl\<close>, the rounding to binary64. \<^verbatim>\<open>Infinity\<close> and \<^verbatim>\<open>NaN\<close> are outside the model:
  \<open>fl\<close> has no largest number, so the model is the code as long as no result reaches
  \<open>2 ^ 1024\<close>. An amount string (\<^verbatim>\<open>"12.50"\<close>) is represented by the decimal number it
  writes, which \<^verbatim>\<open>parseFloat\<close> rounds to binary64, and \<^verbatim>\<open>x.toFixed(2)\<close> by the decimal
  number it prints.
\<close>

subsection \<open>Numbers\<close>

text \<open>The nearest integer, a tie going to the even one.\<close>

definition rne :: "rat \<Rightarrow> int" where
  "rne x =
     (let f = \<lfloor>x\<rfloor>; r = x - of_int f
      in if r < 1 / 2 then f else if 1 / 2 < r then f + 1 else if even f then f else f + 1)"

text \<open>For \<open>x > 0\<close>, the exponent \<open>k\<close> with \<open>2 ^ k \<le> x < 2 ^ (k + 1)\<close>.\<close>

definition floor_log2 :: "rat \<Rightarrow> int" where
  "floor_log2 x =
     (let (p, q) = quotient_of x; k = bitlen p - bitlen q
      in if 2 powi k \<le> x then k else k - 1)"

text \<open>
  The exponent of the last place of the binary64 numbers around \<open>x\<close>: 53 significant bits,
  and nothing finer than \<open>2 ^ -1074\<close> (gradual underflow).
\<close>

definition ulp_exp :: "rat \<Rightarrow> int" where
  "ulp_exp x = max (floor_log2 \<bar>x\<bar> - 52) (- 1074)"

text \<open>Rounding to binary64: to the nearest multiple of the last place, a tie to even.\<close>

definition fl :: "rat \<Rightarrow> rat" where
  "fl x =
     (if x = 0 then 0
      else sgn x * of_int (rne (\<bar>x\<bar> * 2 powi (- ulp_exp x))) * 2 powi (ulp_exp x))"

text \<open>\<^verbatim>\<open>parseFloat(s)\<close> for a decimal string \<open>s\<close>: the binary64 number nearest to it.\<close>

definition parseFloat :: "rat \<Rightarrow> rat" where
  "parseFloat s = fl s"

text \<open>\<^verbatim>\<open>Math.round(x)\<close>: the nearest integer, a tie going up; the result is exact.\<close>

definition Math_round :: "rat \<Rightarrow> int" where
  "Math_round x = \<lfloor>x + 1 / 2\<rfloor>"

text \<open>
  \<^verbatim>\<open>Math.round(x * 100) / 100\<close>, as written at lines 153 and 157: the product and the
  quotient are binary64 operations.
\<close>

definition round2 :: "rat \<Rightarrow> rat" where
  "round2 x = fl (of_int (Math_round (fl (x * 100))) / 100)"

text \<open>
  \<^verbatim>\<open>x.toFixed(2)\<close>, the decimal it prints: the multiple of 0.01 nearest to the exact value
  of \<open>x\<close>, a tie going away from zero (the sign is split off first, then the larger
  candidate wins).
\<close>

definition toFixed2 :: "rat \<Rightarrow> rat" where
  "toFixed2 x =
     (if x < 0 then - (of_int \<lfloor>(- x) * 100 + 1 / 2\<rfloor> / 100)
      else of_int \<lfloor>x * 100 + 1 / 2\<rfloor> / 100)"

subsection \<open>Data\<close>

text \<open>
  An entry of \<^verbatim>\<open>refund.transactions\<close> in the calculate response: every field optional,
  the amount a decimal string.
\<close>

record raw_transaction =
  raw_parent_id :: "int option"
  raw_amount :: "rat option"
  raw_gateway :: "string option"
  raw_kind :: "string option"

text \<open>A kept transaction, as built by the \<^verbatim>\<open>map\<close> at lines 139-144.\<close>

record transaction =
  tx_parent_id :: int
  tx_amount :: rat
  tx_kind :: string
  tx_gateway :: string

text \<open>Lines 136-145: keep the entries that have parent, amount and gateway.\<close>

definition keep_transactions :: "raw_transaction list option \<Rightarrow> transaction list" where
  "keep_transactions ts =
     (case ts of
        None \<Rightarrow> []
      | Some xs \<Rightarrow>
          map (\<lambda>t. \<lparr>tx_parent_id = the (raw_parent_id t), tx_amount = the (raw_amount t),
                      tx_kind = ''refund'', tx_gateway = the (raw_gateway t)\<rparr>)
            (filter (\<lambda>t. raw_parent_id t \<noteq> None \<and> raw_amount t \<noteq> None \<and> raw_gateway t \<noteq> None)
               xs))"

subsection \<open>Reconciliation with a manual amount (lines 147-164)\<close>

text \<open>\<^verbatim>\<open>transactions.reduce((sum, t) => sum + parseFloat(t.amount), 0)\<close>\<close>

definition total_amount :: "transaction list \<Rightarrow> rat" where
  "total_amount ts = foldl (\<lambda>sum t. fl (sum + parseFloat (tx_amount t))) 0 ts"

text \<open>Lines 151-155: every amount times the scale, rounded to cents and printed.\<close>

definition scaled_transactions :: "rat \<Rightarrow> transaction list \<Rightarrow> transaction list" where
  "scaled_transactions scale ts =
     map (\<lambda>t. let amt = fl (parseFloat (tx_amount t) * scale);
                   rounded = round2 amt
               in t\<lparr>tx_amount := toFixed2 rounded\<rparr>) ts"

text \<open>Lines 156-157: what the rounded amounts miss of the manual amount.\<close>

definition residual :: "rat \<Rightarrow> transaction list \<Rightarrow> rat" where
  "residual manualRefundAmount scaled =
     (let newTotal = total_amount scaled in round2 (fl (manualRefundAmount - newTotal)))"

text \<open>Lines 158-161: the residual goes to the first transaction, which never goes below 0.\<close>

definition add_residual :: "rat \<Rightarrow> transaction list \<Rightarrow> transaction list" where
  "add_residual diff scaled =
     (case scaled of
        [] \<Rightarrow> scaled
      | t # rest \<Rightarrow>
          if diff \<noteq> 0 then
            (let first = fl (parseFloat (tx_amount t) + diff)
             in t\<lparr>tx_amount := toFixed2 (max 0 first)\<rparr> # rest)
          else scaled)"

text \<open>Lines 147-164; \<^verbatim>\<open>0.001\<close> is the binary64 number nearest to it.\<close>

definition reconcile :: "rat option \<Rightarrow> transaction list \<Rightarrow> transaction list" where
  "reconcile manualRefundAmount transactions =
     (case manualRefundAmount of
        None \<Rightarrow> transactions
      | Some m \<Rightarrow>
          if m > 0 \<and> length transactions > 0 then
            (let suggestedTotal = total_amount transactions in
               if suggestedTotal > 0 \<and> \<bar>fl (m - suggestedTotal)\<bar> > fl (1 / 1000) then
                 (let scale = fl (m / suggestedTotal);
                      scaled = scaled_transactions scale transactions
                  in add_residual (residual m scaled) scaled)
               else transactions)
          else transactions)"

subsection \<open>Orders, line items and the provider\<close>

text \<open>
  What the refund code throws, one constructor per \<^verbatim>\<open>throw\<close>:
  \<^item> \<open>NoLineItems\<close>: \<^verbatim>\<open>Error('At least one line item with quantity > 0 is required')\<close>;
  \<^item> \<open>LineItemNotFound i\<close>: \<^verbatim>\<open>Error(`Line item ${i} not found in order`)\<close>;
  \<^item> \<open>GetOrderFailed status text\<close>: \<^verbatim>\<open>Error(`Shopify get order failed (${status}): ${text}`)\<close>;
  \<^item> \<open>NoRefundPayload\<close>: \<^verbatim>\<open>Error('Shopify refund calculate returned no refund payload')\<close>;
  \<^item> \<open>ShopifyError message status\<close>: the result of \<^verbatim>\<open>parseShopifyError\<close>, the only error
    that carries a \<^verbatim>\<open>status\<close>.
\<close>

datatype refund_error =
    NoLineItems
  | LineItemNotFound int
  | GetOrderFailed nat string
  | NoRefundPayload
  | ShopifyError string nat

record line_item =
  li_id :: int
  li_quantity :: rat
  li_price :: string
  li_title :: string

record shopify_order =
  so_id :: int
  so_name :: string
  so_currency :: string
  so_line_items :: "line_item list"

text \<open>An entry \<^verbatim>\<open>{ lineItemId, quantity }\<close> of a partial refund request.\<close>

record refund_request_item =
  lineItemId :: int
  quantity :: rat

text \<open>\<^verbatim>\<open>RefundLineItemInput\<close>, an entry of \<^verbatim>\<open>refund_line_items\<close> sent to the provider.\<close>

record refund_line_item_input =
  line_item_id :: int
  rli_quantity :: rat
  restock_type :: "string option"

text \<open>
  The \<^verbatim>\<open>refund\<close> object of the calculate response: its transactions, its note, and its
  other fields by key (their values are passed on untouched).
\<close>

record refund_payload =
  rp_transactions :: "raw_transaction list option"
  rp_note :: "string option"
  rp_fields :: "(string \<times> string) list"

record create_refund =
  cr_note :: string
  cr_transactions :: "transaction list option"
  cr_fields :: "(string \<times> string) list"

text \<open>
  The provider's answers, as functions of what is sent: the order for an id (or the
  status and body of a failed response), the calculated refund for an order id, currency,
  line items and note (or the parsed message and status of a failed response; \<open>Inr None\<close>
  is a response without a \<^verbatim>\<open>refund\<close> object), and the parsed message and status of a
  failed refund creation (\<open>None\<close> when it succeeds).
\<close>

record provider =
  getOrder_result :: "int \<Rightarrow> (nat \<times> string) + shopify_order"
  calculate_result ::
    "int \<Rightarrow> string \<Rightarrow> refund_line_item_input list \<Rightarrow> string \<Rightarrow> (string \<times> nat) + refund_payload option"
  create_result :: "int \<Rightarrow> create_refund \<Rightarrow> (string \<times> nat) option"

definition getOrder :: "provider \<Rightarrow> int \<Rightarrow> refund_error + shopify_order" where
  "getOrder p orderId =
     (case getOrder_result p orderId of
        Inl (status, text) \<Rightarrow> Inl (GetOrderFailed status text)
      | Inr order \<Rightarrow> Inr order)"

definition default_note :: string where
  "default_note = ''Refund initiated from Tilting Heads Help Centre''"

text \<open>
  Lines 136-174: the body of the refund-creation request, built from the \<^verbatim>\<open>refund\<close> object of
  the calculate response.
\<close>

definition createRefund :: "string option \<Rightarrow> rat option \<Rightarrow> refund_payload \<Rightarrow> create_refund" where
  "createRefund note manualRefundAmount refundPayload =
     (let transactions =
            reconcile manualRefundAmount (keep_transactions (rp_transactions refundPayload))
      in \<lparr>cr_note =
            (case note of
               Some n \<Rightarrow> n
             | None \<Rightarrow> (case rp_note refundPayload of Some n \<Rightarrow> n | None \<Rightarrow> default_note)),
          cr_transactions = (if length transactions > 0 then Some transactions else None),
          cr_fields =
            filter (\<lambda>(k, v). k \<notin> {''id'', ''order_id'', ''created_at'', ''processed_at''})
              (rp_fields refundPayload)\<rparr>)"

text \<open>
  \<^verbatim>\<open>executeRefund\<close> (lines 98-187): the calculate request with the given line items, then
  the refund-creation request. The source returns nothing; the model returns the
  refund-creation request it has submitted, so that what reaches the provider can be
  stated.
\<close>

definition executeRefund ::
  "provider \<Rightarrow> int \<Rightarrow> shopify_order \<Rightarrow> refund_line_item_input list \<Rightarrow> string option \<Rightarrow> rat option
     \<Rightarrow> refund_error + create_refund" where
  "executeRefund p orderId order refundLineItems note manualRefundAmount =
     (case calculate_result p orderId (so_currency order) refundLineItems
             (case note of Some n \<Rightarrow> n | None \<Rightarrow> default_note) of
        Inl (message, status) \<Rightarrow> Inl (ShopifyError message status)
      | Inr None \<Rightarrow> Inl NoRefundPayload
      | Inr (Some refundPayload) \<Rightarrow>
          (let body = createRefund note manualRefundAmount refundPayload
           in case create_result p orderId body of
                Some (message, status) \<Rightarrow> Inl (ShopifyError message status)
              | None \<Rightarrow> Inr body))"

text \<open>\<^verbatim>\<open>refundFullOrder\<close> (lines 193-205): every line item at its full quantity.\<close>

definition refundFullOrder ::
  "provider \<Rightarrow> int \<Rightarrow> string option \<Rightarrow> rat option \<Rightarrow> refund_error + create_refund" where
  "refundFullOrder p orderId note manualRefundAmount =
     (case getOrder p orderId of
        Inl e \<Rightarrow> Inl e
      | Inr order \<Rightarrow>
          executeRefund p orderId order
            (map (\<lambda>li. \<lparr>line_item_id = li_id li, rli_quantity = li_quantity li,
                         restock_type = Some ''no_restock''\<rparr>)
               (so_line_items order))
            note manualRefundAmount)"

text \<open>
  \<^verbatim>\<open>new Map(order.line_items.map((li) => [li.id, li]))\<close>: of two line items with one id
  the later one stays.
\<close>

definition byId :: "shopify_order \<Rightarrow> int \<Rightarrow> line_item option" where
  "byId order = map_of (rev (map (\<lambda>li. (li_id li, li)) (so_line_items order)))"

text \<open>The loop of lines 224-232; \<open>items\<close> is the array built so far.\<close>

fun collect_items ::
  "(int \<Rightarrow> line_item option) \<Rightarrow> string \<Rightarrow> refund_request_item list \<Rightarrow> refund_line_item_input list
     \<Rightarrow> refund_error + refund_line_item_input list" where
  "collect_items m restockType [] items = Inr items"
| "collect_items m restockType (r # rs) items =
     (if quantity r \<le> 0 then collect_items m restockType rs items
      else
        (case m (lineItemId r) of
           None \<Rightarrow> Inl (LineItemNotFound (lineItemId r))
         | Some li \<Rightarrow>
             (let qty = min (quantity r) (li_quantity li)
              in if qty > 0 then
                   collect_items m restockType rs
                     (items @ [\<lparr>line_item_id = lineItemId r, rli_quantity = qty,
                                restock_type = Some restockType\<rparr>])
                 else collect_items m restockType rs items)))"

text \<open>Lines 221-235, once the order is there: the items to refund, or the error thrown.\<close>

definition partial_refund_items ::
  "shopify_order \<Rightarrow> string option \<Rightarrow> refund_request_item list
     \<Rightarrow> refund_error + refund_line_item_input list" where
  "partial_refund_items order restockType refundLineItems =
     (case collect_items (byId order) (case restockType of Some r \<Rightarrow> r | None \<Rightarrow> ''no_restock'')
             refundLineItems [] of
        Inl e \<Rightarrow> Inl e
      | Inr items \<Rightarrow> if length items = 0 then Inl NoLineItems else Inr items)"

text \<open>
  \<^verbatim>\<open>refundPartialOrder\<close> (lines 212-237); the three fields of \<^verbatim>\<open>options\<close> are the last
  three arguments.
\<close>

definition refundPartialOrder ::
  "provider \<Rightarrow> int \<Rightarrow> refund_request_item list \<Rightarrow> string option \<Rightarrow> string option \<Rightarrow> rat option
     \<Rightarrow> refund_error + create_refund" where
  "refundPartialOrder p orderId refundLineItems restockType note manualRefundAmount =
     (if length refundLineItems = 0 then Inl NoLineItems
      else
        (case getOrder p orderId of
           Inl e \<Rightarrow> Inl e
         | Inr order \<Rightarrow>
             (case partial_refund_items order restockType refundLineItems of
                Inl e \<Rightarrow> Inl e
              | Inr items \<Rightarrow> executeRefund p orderId order items note manualRefundAmount)))"

subsection \<open>The refund route (src/routes/helpRequests.ts, lines 300-352)\<close>

text \<open>The request body; \<^verbatim>\<open>refundAmount\<close> is absent or a number.\<close>

record refund_body =
  rb_refundLineItems :: "refund_request_item list option"
  rb_restockType :: "string option"
  rb_note :: "string option"
  rb_refundAmount :: "rat option"

text \<open>Lines 323-326: only a positive amount is passed on.\<close>

definition manualAmount :: "refund_body \<Rightarrow> rat option" where
  "manualAmount body =
     (case rb_refundAmount body of
        None \<Rightarrow> None
      | Some a \<Rightarrow> if a > 0 then Some a else None)"

text \<open>
  Lines 322-336, for a request whose provider order id is resolved: the partial refund for
  a non-empty list of line items, the full refund otherwise.
\<close>

definition refund_route ::
  "provider \<Rightarrow> string \<Rightarrow> int \<Rightarrow> refund_body \<Rightarrow> refund_error + create_refund" where
  "refund_route p requestId orderId body =
     (let defaultNote = ''Refund for help request '' @ requestId;
          note = (case rb_note body of Some n \<Rightarrow> n | None \<Rightarrow> defaultNote)
      in case rb_refundLineItems body of
           Some (x # xs) \<Rightarrow>
             refundPartialOrder p orderId (x # xs)
               (Some (case rb_restockType body of Some r \<Rightarrow> r | None \<Rightarrow> ''no_restock''))
               (Some note) (manualAmount body)
         | _ \<Rightarrow> refundFullOrder p orderId (Some note) (manualAmount body))"

text \<open>
  The status of the response (lines 338-351): 200 when the refund went through (and the
  request could be updated), the provider's status when it is 422 or 400, 500 otherwise.
\<close>

definition refund_status :: "refund_error + create_refund \<Rightarrow> nat" where
  "refund_status r =
     (case r of
        Inr _ \<Rightarrow> 200
      | Inl (ShopifyError message status) \<Rightarrow> if status = 422 \<or> status = 400 then status else 500
      | Inl _ \<Rightarrow> 500)"

subsection \<open>Example data\<close>

text \<open>
  An order with one line item (id 11, quantity 2) and a provider that returns it for every
  id, suggests one transaction of 20.00 for every calculation and accepts every refund.
\<close>

definition example_order :: shopify_order where
  "example_order =
     \<lparr>so_id = 1, so_name = ''#1001'', so_currency = ''USD'',
      so_line_items = [\<lparr>li_id = 11, li_quantity = 2, li_price = ''10.00'', li_title = ''Leash''\<rparr>]\<rparr>"

definition example_payload :: refund_payload where
  "example_payload =
     \<lparr>rp_transactions =
        Some [\<lparr>raw_parent_id = Some 7, raw_amount = Some 20, raw_gateway = Some ''manual'',
               raw_kind = Some ''suggested_refund''\<rparr>],
      rp_note = None, rp_fields = []\<rparr>"

definition example_provider :: provider where
  "example_provider =
     \<lparr>getOrder_result = (\<lambda>orderId. Inr example_order),
      calculate_result = (\<lambda>orderId currency items note. Inr (Some example_payload)),
      create_result = (\<lambda>orderId createRefund. None)\<rparr>"

text \<open>
  A provider that calculates a refund for exactly one list of line items, 2 of item 11, and
  answers every other calculate request with status 422.
\<close>

definition strict_provider :: provider where
  "strict_provider =
     \<lparr>getOrder_result = (\<lambda>orderId. Inr example_order),
      calculate_result =
        (\<lambda>orderId currency items note.
           if items = [\<lparr>line_item_id = 11, rli_quantity = 2, restock_type = Some ''no_restock''\<rparr>]
           then Inr (Some example_payload) else Inl (''unexpected line items'', 422)),
      create_result = (\<lambda>orderId body. None)\<rparr>"



definition thirds :: "transaction list" where
  "thirds =
     [\<lparr>tx_parent_id = 7, tx_amount = 1, tx_kind = ''refund'', tx_gateway = ''manual''\<rparr>,
      \<lparr>tx_parent_id = 8, tx_amount = 1, tx_kind = ''refund'', tx_gateway = ''gift_card''\<rparr>,
      \<lparr>tx_parent_id = 9, tx_amount = 1, tx_kind = ''refund'', tx_gateway = ''manual''\<rparr>]"

definition odd_transaction :: transaction where
  "odd_transaction = \<lparr>tx_parent_id = 7, tx_amount = 105 / 1000, tx_kind = ''refund'', tx_gateway = ''manual''\<rparr>"

text \<open>One suggested transaction of 1.00, and two of 10.00 and 30.00.\<close>

definition whole_transaction :: transaction where
  "whole_transaction = \<lparr>tx_parent_id = 7, tx_amount = 1, tx_kind = ''refund'', tx_gateway = ''manual''\<rparr>"

definition ten_thirty :: "transaction list" where
  "ten_thirty =
     [\<lparr>tx_parent_id = 7, tx_amount = 10, tx_kind = ''refund'', tx_gateway = ''manual''\<rparr>,
      \<lparr>tx_parent_id = 8, tx_amount = 30, tx_kind = ''refund'', tx_gateway = ''gift_card''\<rparr>]"


section \<open>Request store (repositories/helpRequests.ts, database/schema.sql)\<close>

text \<open>
  Points in time (\<^verbatim>\<open>TIMESTAMPTZ\<close>) are natural numbers. A table is the list of its rows in
  the order of insertion.
\<close>

type_synonym timestamp = nat

text \<open>
  \<^verbatim>\<open>HelpRequestType\<close> and \<^verbatim>\<open>HelpRequestStatus\<close> of types/helpRequests.ts (the schema also
  admits the type \<^verbatim>\<open>exchange\<close>, which the create route does not accept).
\<close>

datatype help_request_type = Cancel_request | Return_request | Refund_request

datatype help_request_status = Pending | In_progress | Approved | Rejected | Completed

record help_request_row =
  hr_id :: string
  hr_type :: help_request_type
  hr_status :: help_request_status
  hr_customer_email :: string
  hr_customer_phone :: "string option"
  hr_customer_name :: string
  hr_order_number :: string
  hr_reason :: "string option"
  hr_shopify_order_id :: "string option"
  hr_shopify_shop :: "string option"
  hr_processed_at :: "timestamp option"
  hr_processed_by :: "string option"
  hr_admin_notes :: "string option"
  hr_created_at :: timestamp
  hr_updated_at :: timestamp

record help_request_create_body =
  cb_type :: help_request_type
  cb_customer_email :: string
  cb_customer_phone :: "string option"
  cb_customer_name :: string
  cb_order_number :: string
  cb_reason :: "string option"

record help_request_update_body =
  ub_status :: "help_request_status option"
  ub_admin_notes :: "string option"
  ub_shopify_order_id :: "string option"
  ub_shopify_shop :: "string option"

datatype sender = Customer | Admin

record chat_message_row =
  cm_id :: string
  cm_request_id :: string
  cm_sender :: sender
  cm_sender_id :: "string option"
  cm_body :: "string option"
  cm_attachment_blob_url :: "string option"
  cm_attachment_blob_path :: "string option"
  cm_attachment_file_name :: "string option"
  cm_attachment_content_type :: "string option"
  cm_created_at :: timestamp

record chat_message_create =
  mc_request_id :: string
  mc_sender :: sender
  mc_sender_id :: "string option"
  mc_body :: "string option"
  mc_attachment_blob_url :: "string option"
  mc_attachment_blob_path :: "string option"
  mc_attachment_file_name :: "string option"
  mc_attachment_content_type :: "string option"

text \<open>
  The two tables and the clock of the database server, which \<^verbatim>\<open>now()\<close> reads. The table
  \<^verbatim>\<open>admin_users\<close> is not modelled: a \<^verbatim>\<open>sender_id\<close> or \<^verbatim>\<open>processed_by\<close> is taken to name an
  existing admin.
\<close>

record database =
  help_requests :: "help_request_row list"
  chat_messages :: "chat_message_row list"
  clock :: timestamp

text \<open>What the database raises: SQLSTATE 23505 and 23503.\<close>

datatype db_error = Unique_violation | Foreign_key_violation

subsection \<open>The schema's constraints\<close>

text \<open>
  The rows the partial unique index \<^verbatim>\<open>idx_help_requests_one_open_per_order\<close> covers:
  \<^verbatim>\<open>WHERE status NOT IN ('completed', 'rejected')\<close>.
\<close>

definition in_open_index :: "help_request_row \<Rightarrow> bool" where
  "in_open_index r = (hr_status r \<notin> {Completed, Rejected})"

text \<open>
  \<^verbatim>\<open>INSERT INTO help_requests\<close>: refused when the primary key exists, or when the new row
  is covered by the unique index on \<^verbatim>\<open>(order_number)\<close> and a covered row has its order number.
\<close>

definition insert_help_request :: "database \<Rightarrow> help_request_row \<Rightarrow> db_error + database" where
  "insert_help_request db row =
     (if list_ex (\<lambda>r. hr_id r = hr_id row) (help_requests db) then Inl Unique_violation
      else if in_open_index row
              \<and> list_ex (\<lambda>r. in_open_index r \<and> hr_order_number r = hr_order_number row)
                   (help_requests db)
      then Inl Unique_violation
      else Inr (db\<lparr>help_requests := help_requests db @ [row]\<rparr>))"

text \<open>
  \<^verbatim>\<open>UPDATE help_requests SET ... WHERE id = $n\<close>, with \<open>f\<close> the new version of a row: refused
  when the new version is covered by the unique index and another covered row has its
  order number.
\<close>

definition update_help_request ::
  "database \<Rightarrow> string \<Rightarrow> (help_request_row \<Rightarrow> help_request_row) \<Rightarrow> db_error + database" where
  "update_help_request db id' f =
     (if list_ex (\<lambda>r. hr_id r = id' \<and> in_open_index (f r)
                    \<and> list_ex (\<lambda>r'. hr_id r' \<noteq> id' \<and> in_open_index r'
                                  \<and> hr_order_number r' = hr_order_number (f r))
                         (help_requests db))
           (help_requests db)
      then Inl Unique_violation
      else Inr (db\<lparr>help_requests := map (\<lambda>r. if hr_id r = id' then f r else r) (help_requests db)\<rparr>))"

subsection \<open>The repository\<close>

definition OPEN_STATUSES :: "help_request_status list" where
  "OPEN_STATUSES = [Pending, In_progress, Approved]"

text \<open>\<^verbatim>\<open>x?.trim() || null\<close> and \<^verbatim>\<open>x || null\<close> for an optional string.\<close>

definition trim_or_null :: "string option \<Rightarrow> string option" where
  "trim_or_null x = (case x of None \<Rightarrow> None | Some s \<Rightarrow> if trim s = [] then None else Some (trim s))"

definition or_null :: "string option \<Rightarrow> string option" where
  "or_null x = (case x of None \<Rightarrow> None | Some s \<Rightarrow> if s = [] then None else Some s)"

definition hasOpenRequestForOrder :: "database \<Rightarrow> string \<Rightarrow> bool" where
  "hasOpenRequestForOrder db orderNumber =
     (let n = normalized orderNumber
      in list_ex (\<lambda>r. (hr_order_number r = n \<or> hr_order_number r = CHR ''#'' # n)
                       \<and> hr_status r \<in> set OPEN_STATUSES)
           (help_requests db))"

definition getById :: "database \<Rightarrow> string \<Rightarrow> help_request_row option" where
  "getById db id' = find (\<lambda>r. hr_id r = id') (help_requests db)"

text \<open>
  \<^verbatim>\<open>body.order_number.replace(/^#/, '').trim() || body.order_number\<close>: the order number
  that \<^verbatim>\<open>create\<close> stores.
\<close>

definition stored_order_number :: "string \<Rightarrow> string" where
  "stored_order_number order_number =
     (if normalized order_number \<noteq> [] then normalized order_number else order_number)"

text \<open>
  The row that \<^verbatim>\<open>create\<close> inserts; \<open>new_id\<close> is the id the database generates for it, and
  status and both times are the defaults of the schema.
\<close>

definition new_row :: "database \<Rightarrow> string \<Rightarrow> help_request_create_body \<Rightarrow> help_request_row" where
  "new_row db new_id body =
     \<lparr>hr_id = new_id, hr_type = cb_type body, hr_status = Pending,
      hr_customer_email = trim (cb_customer_email body),
      hr_customer_phone = trim_or_null (cb_customer_phone body),
      hr_customer_name = trim (cb_customer_name body),
      hr_order_number = stored_order_number (cb_order_number body),
      hr_reason = trim_or_null (cb_reason body),
      hr_shopify_order_id = None, hr_shopify_shop = None,
      hr_processed_at = None, hr_processed_by = None, hr_admin_notes = None,
      hr_created_at = clock db, hr_updated_at = clock db\<rparr>"

text \<open>\<^verbatim>\<open>create\<close>: the inserted row and the new state, or the error of the database.\<close>

definition create ::
  "database \<Rightarrow> string \<Rightarrow> help_request_create_body \<Rightarrow> db_error + (help_request_row \<times> database)" where
  "create db new_id body =
     (case insert_help_request db (new_row db new_id body) of
        Inl e \<Rightarrow> Inl e
      | Inr db' \<Rightarrow> Inr (new_row db new_id body, db'))"

text \<open>The \<^verbatim>\<open>SET\<close> list that \<^verbatim>\<open>update\<close> builds, applied to a row at time \<open>now\<close>.\<close>

definition set_fields ::
  "timestamp \<Rightarrow> help_request_update_body \<Rightarrow> string option \<Rightarrow> help_request_row \<Rightarrow> help_request_row" where
  "set_fields now body processedBy r =
     (let closing = (ub_status body = Some Completed \<or> ub_status body = Some Rejected)
      in r\<lparr>hr_status := (case ub_status body of Some s \<Rightarrow> s | None \<Rightarrow> hr_status r),
            hr_admin_notes :=
              (case ub_admin_notes body of Some n \<Rightarrow> Some n | None \<Rightarrow> hr_admin_notes r),
            hr_shopify_order_id :=
              (case ub_shopify_order_id body of Some i \<Rightarrow> Some i | None \<Rightarrow> hr_shopify_order_id r),
            hr_shopify_shop :=
              (case ub_shopify_shop body of Some s \<Rightarrow> Some s | None \<Rightarrow> hr_shopify_shop r),
            hr_processed_at := (if closing then Some now else hr_processed_at r),
            hr_processed_by :=
              (if closing \<and> or_null processedBy \<noteq> None then processedBy else hr_processed_by r),
            hr_updated_at := now\<rparr>)"

definition update ::
  "database \<Rightarrow> string \<Rightarrow> help_request_update_body \<Rightarrow> string option
     \<Rightarrow> db_error + (help_request_row option \<times> database)" where
  "update db id' body processedBy =
     (if ub_status body = None \<and> ub_admin_notes body = None \<and> ub_shopify_order_id body = None
         \<and> ub_shopify_shop body = None
      then Inr (getById db id', db)
      else
        (case update_help_request db id' (set_fields (clock db) body processedBy) of
           Inl e \<Rightarrow> Inl e
         | Inr db' \<Rightarrow> Inr (getById db' id', db')))"

text \<open>
  The create route (routes/helpRequests.ts, lines 22-71): the status of the response and the
  new state. The body is typed, so the test of \<^verbatim>\<open>type\<close> against the allowed types always
  passes; a missing string is the empty string.
\<close>

definition post_help_request ::
  "database \<Rightarrow> string \<Rightarrow> help_request_create_body \<Rightarrow> nat \<times> database" where
  "post_help_request db new_id body =
     (if trim (cb_customer_email body) = [] \<or> trim (cb_customer_name body) = []
         \<or> trim (cb_order_number body) = []
      then (400, db)
      else if hasOpenRequestForOrder db (cb_order_number body) then (409, db)
      else
        (case create db new_id body of
           Inl e \<Rightarrow> (500, db)
         | Inr (row, db') \<Rightarrow> (201, db')))"


section \<open>Chat (repositories/chat.ts, routes/chat.ts)\<close>

text \<open>
  \<^verbatim>\<open>getMessagesByRequestId\<close>: the messages of a request by creation time (the order of
  messages created at the same time is the order of insertion here; SQL leaves it open).
\<close>

definition getMessagesByRequestId :: "database \<Rightarrow> string \<Rightarrow> chat_message_row list" where
  "getMessagesByRequestId db requestId =
     sort_key cm_created_at (filter (\<lambda>m. cm_request_id m = requestId) (chat_messages db))"

text \<open>
  \<^verbatim>\<open>createMessage\<close>: the insert is refused when the id exists or (foreign key) no request has
  the id \<^verbatim>\<open>request_id\<close>.
\<close>

definition createMessage ::
  "database \<Rightarrow> string \<Rightarrow> chat_message_create \<Rightarrow> db_error + (chat_message_row \<times> database)" where
  "createMessage db new_id data =
     (let row =
            \<lparr>cm_id = new_id, cm_request_id = mc_request_id data, cm_sender = mc_sender data,
             cm_sender_id = or_null (mc_sender_id data),
             cm_body = trim_or_null (mc_body data),
             cm_attachment_blob_url = or_null (mc_attachment_blob_url data),
             cm_attachment_blob_path = or_null (mc_attachment_blob_path data),
             cm_attachment_file_name = or_null (mc_attachment_file_name data),
             cm_attachment_content_type = or_null (mc_attachment_content_type data),
             cm_created_at = clock db\<rparr>
      in if list_ex (\<lambda>m. cm_id m = new_id) (chat_messages db) then Inl Unique_violation
         else if \<not> list_ex (\<lambda>r. hr_id r = mc_request_id data) (help_requests db)
         then Inl Foreign_key_violation
         else Inr (row, db\<lparr>chat_messages := chat_messages db @ [row]\<rparr>))"

text \<open>SQL \<^verbatim>\<open>MAX\<close> over a column (\<^verbatim>\<open>NULL\<close> when there is no row) and \<^verbatim>\<open>COALESCE\<close>.\<close>

definition sql_max :: "timestamp list \<Rightarrow> timestamp option" where
  "sql_max ts = (case ts of [] \<Rightarrow> None | t # rest \<Rightarrow> Some (fold max rest t))"

definition coalesce :: "'a option \<Rightarrow> 'a option \<Rightarrow> 'a option" where
  "coalesce a b = (case a of Some x \<Rightarrow> Some x | None \<Rightarrow> b)"

text \<open>
  \<^verbatim>\<open>getUnreadCountForAdmin\<close> (lines 68-96). A comparison with \<^verbatim>\<open>NULL\<close> is not true, so
  without a threshold no row is counted.
\<close>

definition getUnreadCountForAdmin :: "database \<Rightarrow> string \<Rightarrow> nat" where
  "getUnreadCountForAdmin db requestId =
     (let last_admin_time =
            sql_max (map cm_created_at
              (filter (\<lambda>m. cm_request_id m = requestId \<and> cm_sender m = Admin) (chat_messages db)));
          request_time = map_option hr_created_at (find (\<lambda>r. hr_id r = requestId) (help_requests db));
          threshold = coalesce last_admin_time request_time
      in length
           (filter (\<lambda>m. cm_request_id m = requestId \<and> cm_sender m = Customer
                        \<and> (case threshold of None \<Rightarrow> False | Some t \<Rightarrow> cm_created_at m > t))
              (chat_messages db)))"

subsection \<open>The chat routes\<close>

datatype http_method = GET | POST

text \<open>
  What the handlers read of a request: the method, the \<^verbatim>\<open>Authorization\<close> header, the query
  parameters \<^verbatim>\<open>token\<close> and \<^verbatim>\<open>email\<close>, and the fields of the JSON body.
\<close>

record chat_request =
  rq_method :: http_method
  rq_authorization :: "string option"
  rq_query_token :: "string option"
  rq_query_email :: "string option"
  rq_body :: "string option"
  rq_attachment_blob_url :: "string option"
  rq_attachment_blob_path :: "string option"
  rq_attachment_file_name :: "string option"
  rq_attachment_content_type :: "string option"

text \<open>The payload of a verified token, and \<^verbatim>\<open>req.auth\<close>.\<close>

record decoded_token =
  dt_userId :: string
  dt_email :: string
  dt_type :: "string option"

record auth_payload =
  ap_userId :: string
  ap_email :: string

text \<open>
  The middleware of the chat router (lines 13-30). \<open>verify\<close> stands for
  \<^verbatim>\<open>jwt.verify(token, config.jwt.secret)\<close>: the payload of a valid token, \<open>None\<close> where it
  throws.
\<close>

definition optional_auth :: "(string \<Rightarrow> decoded_token option) \<Rightarrow> chat_request \<Rightarrow> auth_payload option" where
  "optional_auth verify rq =
     (let token =
            (case rq_authorization rq of
               None \<Rightarrow> None
             | Some header \<Rightarrow> if take 7 header = ''Bearer '' then Some (drop 7 header) else None);
          token' =
            (if or_null token = None \<and> rq_method rq = GET \<and> rq_query_token rq \<noteq> None
             then rq_query_token rq else token)
      in case or_null token' of
           None \<Rightarrow> None
         | Some t \<Rightarrow>
             (case verify t of
                None \<Rightarrow> None
              | Some decoded \<Rightarrow>
                  if dt_type decoded = Some ''access''
                  then Some \<lparr>ap_userId = dt_userId decoded, ap_email = dt_email decoded\<rparr>
                  else None))"

text \<open>A response: an error with its status, the messages (200), or the created message (201).\<close>

datatype chat_response =
    Fail nat string
  | Messages "chat_message_row list"
  | Created chat_message_row

text \<open>\<^verbatim>\<open>GET /chat/:requestId/messages\<close> (lines 33-63).\<close>

definition get_messages ::
  "(string \<Rightarrow> decoded_token option) \<Rightarrow> database \<Rightarrow> string \<Rightarrow> chat_request \<Rightarrow> chat_response" where
  "get_messages verify db requestId rq =
     (case getById db requestId of
        None \<Rightarrow> Fail 404 ''Help request not found''
      | Some request \<Rightarrow>
          (let customerEmail = rq_query_email rq; user = optional_auth verify rq
           in if or_null customerEmail = None \<and> user = None
              then Fail 401 ''Unauthorized: provide email query param or admin auth''
              else
                (case or_null customerEmail of
                   Some e \<Rightarrow>
                     if toLowerCase e \<noteq> toLowerCase (hr_customer_email request)
                     then Fail 403 ''Forbidden: email does not match request''
                     else Messages (getMessagesByRequestId db requestId)
                 | None \<Rightarrow> Messages (getMessagesByRequestId db requestId))))"

text \<open>Lines 79-89: who sends the message, or nobody (the answer is then 401).\<close>

definition determine_sender ::
  "auth_payload option \<Rightarrow> string option \<Rightarrow> help_request_row \<Rightarrow> (sender \<times> string option) option" where
  "determine_sender user customerEmail request =
     (case user of
        Some u \<Rightarrow> Some (Admin, Some (ap_userId u))
      | None \<Rightarrow>
          (case or_null customerEmail of
             Some e \<Rightarrow>
               if toLowerCase e = toLowerCase (hr_customer_email request) then Some (Customer, None)
               else None
           | None \<Rightarrow> None))"

text \<open>
  \<^verbatim>\<open>POST /chat/:requestId/messages\<close> (lines 66-137): the response and the new state. The
  notification mails are sent without waiting and change neither.
\<close>

definition post_message ::
  "(string \<Rightarrow> decoded_token option) \<Rightarrow> database \<Rightarrow> string \<Rightarrow> string \<Rightarrow> chat_request
     \<Rightarrow> chat_response \<times> database" where
  "post_message verify db new_id requestId rq =
     (case getById db requestId of
        None \<Rightarrow> (Fail 404 ''Help request not found'', db)
      | Some request \<Rightarrow>
          (case determine_sender (optional_auth verify rq) (rq_query_email rq) request of
             None \<Rightarrow> (Fail 401 ''Unauthorized: provide email query param or admin auth'', db)
           | Some (sender', senderId) \<Rightarrow>
               if trim_or_null (rq_body rq) = None \<and> or_null (rq_attachment_blob_url rq) = None
               then (Fail 400 ''Message body or attachment is required'', db)
               else
                 (case createMessage db new_id
                         \<lparr>mc_request_id = requestId, mc_sender = sender', mc_sender_id = senderId,
                          mc_body = trim_or_null (rq_body rq),
                          mc_attachment_blob_url = or_null (rq_attachment_blob_url rq),
                          mc_attachment_blob_path = or_null (rq_attachment_blob_path rq),
                          mc_attachment_file_name = or_null (rq_attachment_file_name rq),
                          mc_attachment_content_type = or_null (rq_attachment_content_type rq)\<rparr> of
                    Inl e \<Rightarrow> (Fail 500 ''Failed to create message'', db)
                  | Inr (message, db') \<Rightarrow> (Created message, db'))))"

section \<open>Reachable states of the store\<close>

text \<open>
  The store starts empty. Requests are created and updated and messages are created
  through the repository, with any arguments; in between, time passes, and the clock never
  goes back.
\<close>

inductive reachable :: "database \<Rightarrow> bool" where
  initial: "reachable \<lparr>help_requests = [], chat_messages = [], clock = t\<rparr>"
| tick: "reachable db \<Longrightarrow> clock db \<le> t \<Longrightarrow> reachable (db\<lparr>clock := t\<rparr>)"
| created: "reachable db \<Longrightarrow> create db new_id body = Inr (row, db') \<Longrightarrow> reachable db'"
| updated: "reachable db \<Longrightarrow> update db id' ubody processedBy = Inr (result, db') \<Longrightarrow> reachable db'"
| message_created:
    "reachable db \<Longrightarrow> createMessage db new_id data = Inr (message, db') \<Longrightarrow> reachable db'"

text \<open>
  What holds in every reachable state: ids are unique, two rows that the unique index
  covers and that have one order number are one row, no request is younger than the clock,
  and every message belongs to a request that is not younger than the message.
\<close>

definition store_invariant :: "database \<Rightarrow> bool" where
  "store_invariant db =
     (distinct (map hr_id (help_requests db))
      \<and> (\<forall>r1 \<in> set (help_requests db). \<forall>r2 \<in> set (help_requests db).
            in_open_index r1 \<and> in_open_index r2 \<and> hr_order_number r1 = hr_order_number r2
            \<longrightarrow> hr_id r1 = hr_id r2)
      \<and> (\<forall>r \<in> set (help_requests db). hr_created_at r \<le> clock db)
      \<and> (\<forall>m \<in> set (chat_messages db). \<exists>r \<in> set (help_requests db).
            hr_id r = cm_request_id m \<and> hr_created_at r \<le> cm_created_at m))"

subsection \<open>Example store\<close>

text \<open>
  A refund request for order \<^verbatim>\<open>#1001\<close>, created at time 10 under the id \<^verbatim>\<open>r1\<close>, and a
  thread on it: the customer writes at 20, an admin answers at 30, the customer writes
  again at 40.
\<close>

definition example_body :: help_request_create_body where
  "example_body =
     \<lparr>cb_type = Refund_request, cb_customer_email = ''a@b.com'', cb_customer_phone = None,
      cb_customer_name = ''A B'', cb_order_number = ''#1001'', cb_reason = None\<rparr>"

definition example_request :: help_request_row where
  "example_request =
     \<lparr>hr_id = ''r1'', hr_type = Refund_request, hr_status = Pending,
      hr_customer_email = ''a@b.com'', hr_customer_phone = None, hr_customer_name = ''A B'',
      hr_order_number = ''1001'', hr_reason = None, hr_shopify_order_id = None,
      hr_shopify_shop = None, hr_processed_at = None, hr_processed_by = None,
      hr_admin_notes = None, hr_created_at = 10, hr_updated_at = 10\<rparr>"

definition example_data :: "sender \<Rightarrow> string option \<Rightarrow> chat_message_create" where
  "example_data s sid =
     \<lparr>mc_request_id = ''r1'', mc_sender = s, mc_sender_id = sid, mc_body = Some ''hello'',
      mc_attachment_blob_url = None, mc_attachment_blob_path = None,
      mc_attachment_file_name = None, mc_attachment_content_type = None\<rparr>"

definition example_message :: "string \<Rightarrow> sender \<Rightarrow> string option \<Rightarrow> timestamp \<Rightarrow> chat_message_row" where
  "example_message i s sid t =
     \<lparr>cm_id = i, cm_request_id = ''r1'', cm_sender = s, cm_sender_id = sid,
      cm_body = Some ''hello'', cm_attachment_blob_url = None, cm_attachment_blob_path = None,
      cm_attachment_file_name = None, cm_attachment_content_type = None, cm_created_at = t\<rparr>"

definition example_thread :: "chat_message_row list" where
  "example_thread =
     [example_message ''m1'' Customer None 20,
      example_message ''m2'' Admin (Some ''admin1'') 30,
      example_message ''m3'' Customer None 40]"

definition example_store :: "chat_message_row list \<Rightarrow> timestamp \<Rightarrow> database" where
  "example_store messages t =
     \<lparr>help_requests = [example_request], chat_messages = messages, clock = t\<rparr>"

text \<open>A verifier that accepts the one token \<^verbatim>\<open>good\<close>, an access token of the admin \<^verbatim>\<open>admin1\<close>.\<close>

definition example_verify :: "string \<Rightarrow> decoded_token option" where
  "example_verify token =
     (if token = ''good''
      then Some \<lparr>dt_userId = ''admin1'', dt_email = ''admin@shop.com'', dt_type = Some ''access''\<rparr>
      else None)"

text \<open>A chat request with the given method, \<^verbatim>\<open>Authorization\<close> header and \<^verbatim>\<open>email\<close> parameter.\<close>

definition example_chat_request :: "http_method \<Rightarrow> string option \<Rightarrow> string option \<Rightarrow> chat_request" where
  "example_chat_request method header email =
     \<lparr>rq_method = method, rq_authorization = header, rq_query_token = None,
      rq_query_email = email, rq_body = Some ''hello'', rq_attachment_blob_url = None,
      rq_attachment_blob_path = None, rq_attachment_file_name = None,
      rq_attachment_content_type = None\<rparr>"

section \<open>Properties of the refund code\<close>

subsection \<open>Rounding to binary64\<close>


lemma rne_of_int: "rne (of_int n) = n"
  unfolding rne_def Let_def by simp

lemma rne_bounds: "\<lfloor>x\<rfloor> \<le> rne x \<and> rne x \<le> \<lfloor>x\<rfloor> + 1"
  unfolding rne_def Let_def by auto

lemma rne_mono: "x \<le> y \<Longrightarrow> rne x \<le> rne y"
proof -
  assume xy: "x \<le> y"
  then have f: "\<lfloor>x\<rfloor> \<le> \<lfloor>y\<rfloor>" by (rule floor_mono)
  show ?thesis
  proof (cases "\<lfloor>x\<rfloor> = \<lfloor>y\<rfloor>")
    case True
    then show ?thesis using xy unfolding rne_def Let_def by auto
  next
    case False
    with f have "\<lfloor>x\<rfloor> + 1 \<le> \<lfloor>y\<rfloor>" by simp
    then show ?thesis using rne_bounds[of x] rne_bounds[of y] by linarith
  qed
qed


lemma bitlen_powi:
  assumes "0 < p"
  shows "(2::rat) powi (bitlen p - 1) \<le> of_int p \<and> of_int p < (2::rat) powi (bitlen p)"
proof -
  from bitlen_bounds[OF assms] have b: "2 ^ nat (bitlen p - 1) \<le> p" "p < 2 ^ nat (bitlen p)" by auto
  have pos: "0 < bitlen p" using assms bitlen_ge_iff_power[of 1 p] by simp
  have "(2::rat) powi (bitlen p - 1) = 2 powi (int (nat (bitlen p - 1)))" using pos by simp
  also have "\<dots> = 2 ^ nat (bitlen p - 1)" by (rule power_int_of_nat)
  also have "\<dots> = of_int (2 ^ nat (bitlen p - 1))" by simp
  also have "\<dots> \<le> of_int p" using b(1) by (simp only: of_int_le_iff)
  finally have l: "(2::rat) powi (bitlen p - 1) \<le> of_int p" .
  have "(of_int p :: rat) < of_int (2 ^ nat (bitlen p))" using b(2) by (simp only: of_int_less_iff)
  also have "\<dots> = 2 ^ nat (bitlen p)" by simp
  also have "\<dots> = 2 powi (int (nat (bitlen p)))" by (rule power_int_of_nat[symmetric])
  also have "\<dots> = 2 powi (bitlen p)" using pos by simp
  finally show ?thesis using l by simp
qed

lemma powi2_pos: "0 < (2::rat) powi k" by (simp add: zero_less_power_int)

lemma powi2_add: "(2::rat) powi (a + b) = 2 powi a * 2 powi b"
  by (rule power_int_add) simp

lemma powi2_diff: "(2::rat) powi (a - b) = 2 powi a / 2 powi b"
  by (rule power_int_diff) simp

lemma powi2_mono: "a \<le> b \<Longrightarrow> (2::rat) powi a \<le> 2 powi b"
  by (rule power_int_increasing) simp_all

lemma powi2_strict_mono: "a < b \<Longrightarrow> (2::rat) powi a < 2 powi b"
  by (rule power_int_strict_increasing) simp_all

lemma powi2_less_cancel: "(2::rat) powi a < 2 powi b \<Longrightarrow> a < b"
proof (rule ccontr)
  assume l: "(2::rat) powi a < 2 powi b" and "\<not> a < b"
  then have "b \<le> a" by simp
  from powi2_mono[OF this] l show False by simp
qed

lemma floor_log2_bounds:
  assumes "0 < x"
  shows "2 powi (floor_log2 x) \<le> x \<and> x < 2 powi (floor_log2 x + 1)"
proof -
  obtain p q where pq: "quotient_of x = (p, q)" by (cases "quotient_of x")
  have q: "0 < q" using pq by (rule quotient_of_denom_pos)
  have x: "x = of_int p / of_int q" using pq by (rule quotient_of_div)
  have p: "0 < p" using assms q unfolding x by (simp add: zero_less_divide_iff)
  let ?k = "bitlen p - bitlen q"
  note bp = bitlen_powi[OF p] and bq = bitlen_powi[OF q]
  have qpos: "(0::rat) < of_int q" using q by simp
  have "x * of_int q = of_int p" using qpos unfolding x by simp
  have up: "x < 2 powi (?k + 1)"
  proof -
    have "of_int p < (2::rat) powi (bitlen p)" using bp by simp
    also have "\<dots> = 2 powi (?k + 1) * 2 powi (bitlen q - 1)"
      by (simp add: powi2_add[symmetric])
    also have "\<dots> \<le> 2 powi (?k + 1) * of_int q"
      using bq powi2_pos[of "?k + 1"] by (simp add: mult_left_mono)
    finally have "of_int p < 2 powi (?k + 1) * rat_of_int q" .
    then show ?thesis using qpos unfolding x by (simp add: pos_divide_less_eq)
  qed
  have lo: "2 powi (?k - 1) \<le> x"
  proof -
    have "2 powi (?k - 1) * rat_of_int q \<le> 2 powi (?k - 1) * 2 powi (bitlen q)"
      using bq powi2_pos[of "?k - 1"] by (simp add: mult_left_mono)
    also have "\<dots> = 2 powi (bitlen p - 1)" by (simp add: powi2_add[symmetric])
    also have "\<dots> \<le> of_int p" using bp by simp
    finally show ?thesis using qpos unfolding x by (simp add: pos_le_divide_eq)
  qed
  have fl2: "floor_log2 x = (if 2 powi ?k \<le> x then ?k else ?k - 1)"
    by (simp add: floor_log2_def pq Let_def)
  show ?thesis
  proof (cases "2 powi ?k \<le> x")
    case True
    then show ?thesis using up fl2 by simp
  next
    case False
    then have "x < 2 powi ?k" by simp
    then show ?thesis using lo fl2 False by simp
  qed
qed

lemma floor_log2_unique:
  assumes "0 < x" "2 powi k \<le> x" "x < 2 powi (k + 1)"
  shows "floor_log2 x = k"
proof -
  from floor_log2_bounds[OF assms(1)]
  have b: "2 powi (floor_log2 x) \<le> x" "x < 2 powi (floor_log2 x + 1)" by auto
  have "(2::rat) powi k < 2 powi (floor_log2 x + 1)" using assms(2) b(2) by (rule le_less_trans)
  then have 1: "k < floor_log2 x + 1" by (rule powi2_less_cancel)
  have "(2::rat) powi (floor_log2 x) < 2 powi (k + 1)" using b(1) assms(3) by (rule le_less_trans)
  then have 2: "floor_log2 x < k + 1" by (rule powi2_less_cancel)
  from 1 2 show ?thesis by simp
qed

lemma floor_log2_mono:
  assumes "0 < x" "x \<le> y"
  shows "floor_log2 x \<le> floor_log2 y"
proof -
  have y: "0 < y" using assms by simp
  from floor_log2_bounds[OF assms(1)] floor_log2_bounds[OF y]
  have "(2::rat) powi (floor_log2 x) < 2 powi (floor_log2 y + 1)" using assms(2) by linarith
  then have "floor_log2 x < floor_log2 y + 1" by (rule powi2_less_cancel)
  then show ?thesis by simp
qed


lemma powi2_nat: "0 \<le> k \<Longrightarrow> (2::rat) powi k = of_int (2 ^ nat k)"
proof -
  assume "0 \<le> k"
  then have "(2::rat) powi k = 2 powi (int (nat k))" by simp
  also have "\<dots> = 2 ^ nat k" by (rule power_int_of_nat)
  finally show ?thesis by simp
qed

lemma fl_0: "fl 0 = 0" by (simp add: fl_def)

lemma fl_pos:
  "0 < x \<Longrightarrow> fl x = of_int (rne (x * 2 powi (- ulp_exp x))) * 2 powi (ulp_exp x)"
  by (simp add: fl_def)

lemma ulp_exp_minus: "ulp_exp (- x) = ulp_exp x" by (simp add: ulp_exp_def)

lemma fl_minus: "fl (- x) = - fl x"
  by (simp add: fl_def ulp_exp_minus sgn_minus)

lemma rne_nonneg: "0 \<le> x \<Longrightarrow> 0 \<le> rne x"
  using rne_mono[of 0 x] rne_of_int[of 0] by simp

lemma fl_nonneg: "0 \<le> x \<Longrightarrow> 0 \<le> fl x"
proof (cases "x = 0")
  case True
  then show ?thesis by (simp add: fl_0)
next
  case False
  assume "0 \<le> x"
  with False have x: "0 < x" by simp
  have "0 \<le> x * 2 powi (- ulp_exp x)" using x powi2_pos[of "- ulp_exp x"] by simp
  then have "0 \<le> rne (x * 2 powi (- ulp_exp x))" by (rule rne_nonneg)
  then show ?thesis unfolding fl_pos[OF x] using powi2_pos[of "ulp_exp x"] by simp
qed

lemma ulp_exp_mono: "0 < x \<Longrightarrow> x \<le> y \<Longrightarrow> ulp_exp x \<le> ulp_exp y"
  using floor_log2_mono[of x y] by (simp add: ulp_exp_def)

lemma fl_mono_pos:
  assumes x: "0 < x" and xy: "x \<le> y"
  shows "fl x \<le> fl y"
proof -
  have y: "0 < y" using x xy by simp
  let ?ex = "ulp_exp x" and ?ey = "ulp_exp y"
  have le: "?ex \<le> ?ey" using x xy by (rule ulp_exp_mono)
  show ?thesis
  proof (cases "?ex = ?ey")
    case True
    have "x * 2 powi (- ?ex) \<le> y * 2 powi (- ?ex)"
      using xy powi2_pos[of "- ?ex"] by (simp add: mult_right_mono)
    then have "rne (x * 2 powi (- ?ex)) \<le> rne (y * 2 powi (- ?ex))" by (rule rne_mono)
    then have "rat_of_int (rne (x * 2 powi (- ?ex))) \<le> of_int (rne (y * 2 powi (- ?ex)))" by simp
    then have "rat_of_int (rne (x * 2 powi (- ?ex))) * 2 powi ?ex \<le> of_int (rne (y * 2 powi (- ?ex))) * 2 powi ?ex"
      using powi2_pos[of ?ex] by (simp add: mult_right_mono)
    then show ?thesis unfolding fl_pos[OF x] fl_pos[OF y] True[symmetric] .
  next
    case False
    with le have lt: "?ex < ?ey" by simp
    let ?ky = "floor_log2 y" and ?kx = "floor_log2 x"
    have ax: "\<bar>x\<bar> = x" and ay: "\<bar>y\<bar> = y" using x y by simp_all
    have ey: "?ey = ?ky - 52" and ex1: "?kx - 52 \<le> ?ex" and ex2: "- 1074 \<le> ?ex"
      using lt unfolding ulp_exp_def ax ay by (simp_all add: max_def split: if_splits)
    have kxy: "?kx + 1 \<le> ?ky" using ey ex1 lt by simp
    have d: "0 \<le> ?ky - ?ex" using ey lt by simp
    note bx = floor_log2_bounds[OF x] and byy = floor_log2_bounds[OF y]
    have "x \<le> 2 powi (?kx + 1)" using bx by simp
    also have "\<dots> \<le> 2 powi ?ky" using kxy by (rule powi2_mono)
    finally have xk: "x \<le> 2 powi ?ky" .
    have "x * 2 powi (- ?ex) \<le> 2 powi ?ky * 2 powi (- ?ex)"
      using xk powi2_pos[of "- ?ex"] by (simp add: mult_right_mono)
    also have "\<dots> = 2 powi (?ky - ?ex)" by (simp add: powi2_add[symmetric])
    also have "\<dots> = of_int (2 ^ nat (?ky - ?ex))" using d by (rule powi2_nat)
    finally have "rne (x * 2 powi (- ?ex)) \<le> rne (of_int (2 ^ nat (?ky - ?ex)))" by (rule rne_mono)
    then have "rat_of_int (rne (x * 2 powi (- ?ex))) \<le> of_int (2 ^ nat (?ky - ?ex))"
      unfolding rne_of_int by (simp only: of_int_le_iff)
    also have "\<dots> = 2 powi (?ky - ?ex)" using d by (rule powi2_nat[symmetric])
    finally have "rat_of_int (rne (x * 2 powi (- ?ex))) * 2 powi ?ex \<le> 2 powi (?ky - ?ex) * 2 powi ?ex"
      using powi2_pos[of ?ex] by (simp add: mult_right_mono)
    also have "\<dots> = 2 powi ?ky" by (simp add: powi2_add[symmetric])
    finally have 1: "fl x \<le> 2 powi ?ky" unfolding fl_pos[OF x] .
    have "(2::rat) powi 52 = 2 powi (?ky - ?ey)" using ey by simp
    also have "\<dots> = 2 powi ?ky * 2 powi (- ?ey)" by (simp add: powi2_add[symmetric])
    also have "\<dots> \<le> y * 2 powi (- ?ey)"
      using byy powi2_pos[of "- ?ey"] by (simp add: mult_right_mono)
    finally have "(2::rat) powi 52 \<le> y * 2 powi (- ?ey)" .
    moreover have "(2::rat) powi 52 = of_int (2 ^ nat 52)" by (rule powi2_nat) simp
    ultimately have "rat_of_int (2 ^ nat 52) \<le> y * 2 powi (- ?ey)" by simp
    then have "rne (of_int (2 ^ nat 52)) \<le> rne (y * 2 powi (- ?ey))" by (rule rne_mono)
    then have "rat_of_int (2 ^ nat 52) \<le> of_int (rne (y * 2 powi (- ?ey)))"
      unfolding rne_of_int by (simp only: of_int_le_iff)
    then have A: "rat_of_int (2 ^ nat 52) * 2 powi ?ey \<le> of_int (rne (y * 2 powi (- ?ey))) * 2 powi ?ey"
      using powi2_pos[of ?ey] by (simp only: mult_right_mono less_imp_le)
    have B: "rat_of_int (2 ^ nat 52) * 2 powi ?ey = 2 powi ?ky"
    proof -
      have "rat_of_int (2 ^ nat 52) = 2 powi 52" by (rule powi2_nat[symmetric]) simp
      then have "rat_of_int (2 ^ nat 52) * 2 powi ?ey = 2 powi 52 * 2 powi ?ey" by (simp only:)
      also have "\<dots> = 2 powi (52 + ?ey)" by (rule powi2_add[symmetric])
      also have "\<dots> = 2 powi ?ky" using ey by simp
      finally show ?thesis .
    qed
    have 2: "2 powi ?ky \<le> fl y" using A unfolding fl_pos[OF y] B .
    from 1 2 show ?thesis by (rule order_trans)
  qed
qed

lemma fl_mono: "x \<le> y \<Longrightarrow> fl x \<le> fl y"
proof -
  assume xy: "x \<le> y"
  consider "0 < x" | "x \<le> 0" "0 \<le> y" | "y < 0" by linarith
  then show ?thesis
  proof cases
    case 1
    then show ?thesis using xy by (rule fl_mono_pos)
  next
    case 2
    from 2(1) have "0 \<le> fl (- x)" by (intro fl_nonneg) simp
    then have "fl x \<le> 0" by (simp add: fl_minus)
    also have "0 \<le> fl y" using 2(2) by (rule fl_nonneg)
    finally show ?thesis .
  next
    case 3
    then have "0 < - y" "- y \<le> - x" using xy by simp_all
    then have "fl (- y) \<le> fl (- x)" by (rule fl_mono_pos)
    then show ?thesis by (simp add: fl_minus)
  qed
qed

lemma fl_abs_le: "\<bar>x\<bar> \<le> b \<Longrightarrow> \<bar>fl x\<bar> \<le> fl b"
proof -
  assume a: "\<bar>x\<bar> \<le> b"
  then have "x \<le> b" "- b \<le> x" by simp_all
  then have "fl x \<le> fl b" "fl (- b) \<le> fl x" by (simp_all add: fl_mono)
  then show ?thesis by (simp add: fl_minus abs_le_iff)
qed






lemma rne_eqI:
  assumes "\<bar>x - of_int n\<bar> < 1 / 2"
  shows "rne x = n"
proof (cases "of_int n \<le> x")
  case True
  with assms have "x < of_int n + 1" by linarith
  with True have f: "\<lfloor>x\<rfloor> = n" by (simp add: floor_unique)
  show ?thesis using assms True unfolding rne_def Let_def f by simp
next
  case False
  with assms have "of_int (n - 1) \<le> x" "x < of_int (n - 1) + 1" by simp_all
  then have f: "\<lfloor>x\<rfloor> = n - 1" by (rule floor_unique)
  have "1 / 2 < x - of_int (n - 1)" using assms False by simp
  then show ?thesis unfolding rne_def Let_def f by simp
qed

lemma rne_tieI:
  assumes "\<bar>x - of_int n\<bar> = 1 / 2" "even n"
  shows "rne x = n"
proof (cases "of_int n \<le> x")
  case True
  with assms have x: "x = of_int n + 1 / 2" by linarith
  have f: "\<lfloor>x\<rfloor> = n" unfolding x by (rule floor_unique) simp_all
  show ?thesis using assms(2) unfolding rne_def Let_def f by (simp add: x)
next
  case False
  with assms have x: "x = of_int (n - 1) + 1 / 2" by simp
  have f: "\<lfloor>x\<rfloor> = n - 1" unfolding x by (rule floor_unique) simp_all
  have r: "x - of_int (n - 1) = 1 / 2" unfolding x by simp
  show ?thesis using assms(2) unfolding rne_def Let_def f r by simp
qed

lemma fl_rne:
  fixes k :: nat
  assumes "0 < x" "2 ^ 52 \<le> x * 2 ^ k" "x * 2 ^ k < 2 ^ 53" "k \<le> 1074"
  shows "fl x = of_int (rne (x * 2 ^ k)) / 2 ^ k"
proof -
  have pk: "(2::rat) powi (int k) = 2 ^ k" by (rule power_int_of_nat)
  have mk: "(2::rat) powi (- int k) = 1 / 2 ^ k"
    using power_int_minus_divide[of "2::rat" "int k"] pk by simp
  have "2 powi (52 - int k) = (2::rat) powi 52 / 2 powi (int k)" by (rule powi2_diff)
  also have "(2::rat) powi 52 = 2 ^ 52" using power_int_of_nat[of "2::rat" 52] by simp
  finally have "2 powi (52 - int k) = (2::rat) ^ 52 / 2 ^ k" unfolding pk .
  also have "\<dots> \<le> x" using assms(2) by (simp add: pos_divide_le_eq)
  finally have lo: "2 powi (52 - int k) \<le> x" .
  have "2 powi (52 - int k + 1) = (2::rat) powi 53 / 2 powi (int k)"
    using powi2_diff[of 53 "int k"] by simp
  also have "(2::rat) powi 53 = 2 ^ 53" using power_int_of_nat[of "2::rat" 53] by simp
  finally have "2 powi (52 - int k + 1) = (2::rat) ^ 53 / 2 ^ k" unfolding pk .
  moreover have "x < 2 ^ 53 / 2 ^ k" using assms(3) by (simp add: pos_less_divide_eq)
  ultimately have hi: "x < 2 powi (52 - int k + 1)" by simp
  have "floor_log2 x = 52 - int k" using assms(1) lo hi by (rule floor_log2_unique)
  then have e: "ulp_exp x = - int k" using assms(1,4) by (simp add: ulp_exp_def)
  show ?thesis unfolding fl_pos[OF assms(1)] e by (simp add: pk mk)
qed

lemma fl_value:
  fixes k :: nat
  assumes "0 < x" "2 ^ 52 \<le> x * 2 ^ k" "x * 2 ^ k < 2 ^ 53" "k \<le> 1074"
    and "\<bar>x * 2 ^ k - of_int n\<bar> < 1 / 2"
  shows "fl x = of_int n / 2 ^ k"
  unfolding fl_rne[OF assms(1-4)] rne_eqI[OF assms(5)] ..

lemma fl_value_tie:
  fixes k :: nat
  assumes "0 < x" "2 ^ 52 \<le> x * 2 ^ k" "x * 2 ^ k < 2 ^ 53" "k \<le> 1074"
    and "\<bar>x * 2 ^ k - of_int n\<bar> = 1 / 2" "even n"
  shows "fl x = of_int n / 2 ^ k"
  unfolding fl_rne[OF assms(1-4)] rne_tieI[OF assms(5,6)] ..

lemma floor_numeral_divide:
  "\<lfloor>numeral a / numeral b :: rat\<rfloor> = numeral a div numeral b"
  using floor_divide_of_int_eq [of "numeral a" "numeral b", where ?'a = rat] by simp

lemma floor_one_divide:
  "\<lfloor>1 / numeral b :: rat\<rfloor> = 1 div numeral b"
  using floor_divide_of_int_eq [of 1 "numeral b", where ?'a = rat] by simp

lemma floor_minus_numeral_divide:
  "\<lfloor>- (numeral a / numeral b) :: rat\<rfloor> = (- numeral a) div numeral b"
  using floor_divide_of_int_eq [of "- numeral a" "numeral b", where ?'a = rat] by simp

lemma floor_minus_one_divide:
  "\<lfloor>- (1 / numeral b) :: rat\<rfloor> = (- 1) div numeral b"
  using floor_divide_of_int_eq [of "- 1" "numeral b", where ?'a = rat] by simp

lemmas floor_eval =
  floor_numeral_divide floor_one_divide floor_minus_numeral_divide floor_minus_one_divide

subsection \<open>Rounding errors\<close>
































subsection \<open>Reconciliation\<close>




text \<open>
  For a manual amount that is not in whole cents the sum need not be the amount rounded to
  two decimals: with one suggested transaction of 1.00 and a manual amount of 0.125 the
  scaled amount is 0.13, the residual is \<open>-0.01\<close> (the difference \<open>0.125 - 0.13\<close> times 100 is
  just below \<open>-0.5\<close> in binary64), and 0.12 is submitted, while \<^verbatim>\<open>(0.125).toFixed(2)\<close> is 0.13.
\<close>

theorem reconcile_eighth:
  "map tx_amount (reconcile (Some (fl (125 / 1000))) [whole_transaction]) = [12 / 100]
   \<and> toFixed2 (fl (125 / 1000)) = 13 / 100"
proof -
  have f1: "fl (1 / 1000) = 1152921504606847 / 1152921504606846976"
    using fl_value[where k = 62 and n = 4611686018427388 and x = "1 / 1000"] by simp
  have f2: "fl (45035996273705 / 9007199254740992) = 45035996273705 / 9007199254740992"
    using fl_value[where k = 60 and n = 5764607523034240 and x = "45035996273705 / 9007199254740992"] by simp
  have f3: "fl (1 / 100) = 5764607523034235 / 576460752303423488"
    using fl_value[where k = 59 and n = 5764607523034235 and x = "1 / 100"] by simp
  have f4: "fl (69175290276410821 / 576460752303423488) = 8646911284551353 / 72057594037927936"
    using fl_value[where k = 56 and n = 8646911284551353 and x = "69175290276410821 / 576460752303423488"] by simp
  have f5: "fl (1 / 8) = 1 / 8"
    using fl_value[where k = 55 and n = 4503599627370496 and x = "1 / 8"] by simp
  have f6: "fl (13 / 100) = 1170935903116329 / 9007199254740992"
    using fl_value[where k = 55 and n = 4683743612465316 and x = "13 / 100"] by simp
  have f7: "fl (1170935903116329 / 9007199254740992) = 1170935903116329 / 9007199254740992"
    using fl_value[where k = 55 and n = 4683743612465316 and x = "1170935903116329 / 9007199254740992"] by simp
  have f8: "fl (1125899906842625 / 2251799813685248) = 1125899906842625 / 2251799813685248"
    using fl_value[where k = 53 and n = 4503599627370500 and x = "1125899906842625 / 2251799813685248"] by simp
  have f9: "fl (7 / 8) = 7 / 8"
    using fl_value[where k = 53 and n = 7881299347898368 and x = "7 / 8"] by simp
  have f10: "fl (1) = 1"
    using fl_value[where k = 52 and n = 4503599627370496 and x = "1"] by simp
  have f11: "fl (25 / 2) = 25 / 2"
    using fl_value[where k = 49 and n = 7036874417766400 and x = "25 / 2"] by simp
  note fls = f1 f2 f3 f4 f5 f6 f7 f8 f9 f10 f11
  have m: "fl (125 / 1000) = 1 / 8" by (simp add: fls)
  have S: "total_amount [whole_transaction] = 1"
    by (simp add: total_amount_def whole_transaction_def parseFloat_def fls)
  have g: "fl (1 / 1000) < \<bar>fl (fl (125 / 1000) - total_amount [whole_transaction])\<bar>"
    unfolding S m by (simp add: fls fl_minus)
  have sc: "map tx_amount (scaled_transactions (1 / 8) [whole_transaction]) = [13 / 100]"
    by (simp add: scaled_transactions_def whole_transaction_def parseFloat_def
        round2_def Math_round_def toFixed2_def Let_def fls fl_minus floor_eval)
  have nt: "total_amount (scaled_transactions (1 / 8) [whole_transaction]) = 1170935903116329 / 9007199254740992"
    by (simp add: total_amount_def scaled_transactions_def whole_transaction_def parseFloat_def
        round2_def Math_round_def toFixed2_def Let_def fls fl_minus floor_eval)
  have res: "residual (1 / 8) (scaled_transactions (1 / 8) [whole_transaction]) = - (5764607523034235 / 576460752303423488)"
    unfolding residual_def nt by (simp add: round2_def Math_round_def fls fl_minus fl_0 floor_eval)
  have ar: "map tx_amount (add_residual (- (5764607523034235 / 576460752303423488)) (scaled_transactions (1 / 8) [whole_transaction])) = [3 / 25]"
    by (simp add: add_residual_def scaled_transactions_def whole_transaction_def parseFloat_def
        round2_def Math_round_def toFixed2_def Let_def fls fl_minus floor_eval)
  have ne: "[whole_transaction] \<noteq> []" by (simp add: whole_transaction_def)
  have r: "reconcile (Some (fl (125 / 1000))) [whole_transaction]
      = add_residual (- (5764607523034235 / 576460752303423488)) (scaled_transactions (1 / 8) [whole_transaction])"
    using g ne unfolding m by (simp add: reconcile_def Let_def S res fls)
  have sc0: "tx_amount (hd (scaled_transactions (1 / 8) [whole_transaction])) = 13 / 100"
    by (simp add: scaled_transactions_def whole_transaction_def parseFloat_def
        round2_def Math_round_def toFixed2_def Let_def fls fl_minus floor_eval)
  have scale: "fl (1 / 8 / total_amount [whole_transaction]) = 1 / 8" unfolding S by (simp add: fls)
  have first: "fl (parseFloat (13 / 100) + - (5764607523034235 / 576460752303423488)) = 8646911284551353 / 72057594037927936" by (simp add: parseFloat_def fls fl_minus)

  have t: "toFixed2 (fl (125 / 1000)) = 13 / 100" by (simp add: toFixed2_def fls floor_eval)
  show ?thesis using t unfolding r ar by simp
qed

text \<open>
  A manual amount of 1.005 against one transaction of 1.00 gives 1.00, and a manual amount
  of 0.22 against transactions of 10.00 and 30.00 gives 0.06 and 0.16.
\<close>

lemma reconcile_1005:
  "map tx_amount (reconcile (Some (fl (1005 / 1000))) [whole_transaction]) = [1]"
proof -
  have f1: "fl (1 / 1000) = 1152921504606847 / 1152921504606846976"
    using fl_value[where k = 62 and n = 4611686018427388 and x = "1 / 1000"] by simp
  have f2: "fl (5629499534213 / 1125899906842624) = 5629499534213 / 1125899906842624"
    using fl_value[where k = 60 and n = 5764607523034112 and x = "5629499534213 / 1125899906842624"] by simp
  have f3: "fl (140737488355325 / 281474976710656) = 140737488355325 / 281474976710656"
    using fl_value[where k = 54 and n = 9007199254740800 and x = "140737488355325 / 281474976710656"] by simp
  have f4: "fl (1) = 1"
    using fl_value[where k = 52 and n = 4503599627370496 and x = "1"] by simp
  have f5: "fl (1131529406376837 / 1125899906842624) = 1131529406376837 / 1125899906842624"
    using fl_value[where k = 52 and n = 4526117625507348 and x = "1131529406376837 / 1125899906842624"] by simp
  have f6: "fl (201 / 200) = 1131529406376837 / 1125899906842624"
    using fl_value[where k = 52 and n = 4526117625507348 and x = "201 / 200"] by simp
  have f7: "fl (28288235159420925 / 281474976710656) = 7072058789855231 / 70368744177664"
    using fl_value[where k = 46 and n = 7072058789855231 and x = "28288235159420925 / 281474976710656"] by simp
  note fls = f1 f2 f3 f4 f5 f6 f7
  have m: "fl (1005 / 1000) = 1131529406376837 / 1125899906842624" by (simp add: fls)
  have S: "total_amount [whole_transaction] = 1"
    by (simp add: total_amount_def whole_transaction_def parseFloat_def fls)
  have g: "fl (1 / 1000) < \<bar>fl (fl (1005 / 1000) - total_amount [whole_transaction])\<bar>"
    unfolding S m by (simp add: fls fl_minus)
  have sc: "map tx_amount (scaled_transactions (1131529406376837 / 1125899906842624) [whole_transaction]) = [1]"
    by (simp add: scaled_transactions_def whole_transaction_def parseFloat_def
        round2_def Math_round_def toFixed2_def Let_def fls fl_minus floor_eval)
  have nt: "total_amount (scaled_transactions (1131529406376837 / 1125899906842624) [whole_transaction]) = 1"
    by (simp add: total_amount_def scaled_transactions_def whole_transaction_def parseFloat_def
        round2_def Math_round_def toFixed2_def Let_def fls fl_minus floor_eval)
  have res: "residual (1131529406376837 / 1125899906842624) (scaled_transactions (1131529406376837 / 1125899906842624) [whole_transaction]) = 0"
    unfolding residual_def nt by (simp add: round2_def Math_round_def fls fl_minus fl_0 floor_eval)
  have ar: "map tx_amount (add_residual (0) (scaled_transactions (1131529406376837 / 1125899906842624) [whole_transaction])) = [1]"
    by (simp add: add_residual_def scaled_transactions_def whole_transaction_def parseFloat_def
        round2_def Math_round_def toFixed2_def Let_def fls fl_minus floor_eval)
  have ne: "[whole_transaction] \<noteq> []" by (simp add: whole_transaction_def)
  have r: "reconcile (Some (fl (1005 / 1000))) [whole_transaction]
      = add_residual (0) (scaled_transactions (1131529406376837 / 1125899906842624) [whole_transaction])"
    using g ne unfolding m by (simp add: reconcile_def Let_def S res fls)
  have sc0: "tx_amount (hd (scaled_transactions (1131529406376837 / 1125899906842624) [whole_transaction])) = 1"
    by (simp add: scaled_transactions_def whole_transaction_def parseFloat_def
        round2_def Math_round_def toFixed2_def Let_def fls fl_minus floor_eval)
  have scale: "fl (1131529406376837 / 1125899906842624 / total_amount [whole_transaction]) = 1131529406376837 / 1125899906842624" unfolding S by (simp add: fls)

  show ?thesis unfolding r ar by simp
qed

lemma reconcile_022:
  "map tx_amount (reconcile (Some (fl (22 / 100))) ten_thirty) = [6 / 100, 16 / 100]"
proof -
  have f1: "fl (1 / 1000) = 1152921504606847 / 1152921504606846976"
    using fl_value[where k = 62 and n = 4611686018427388 and x = "1 / 1000"] by simp
  have f2: "fl (7926335344172073 / 1441151880758558720) = 3170534137668829 / 576460752303423488"
    using fl_value[where k = 60 and n = 6341068275337658 and x = "7926335344172073 / 1441151880758558720"] by simp
  have f3: "fl (360287970189639 / 36028797018963968) = 360287970189639 / 36028797018963968"
    using fl_value[where k = 59 and n = 5764607523034224 and x = "360287970189639 / 36028797018963968"] by simp
  have f4: "fl (1 / 100) = 5764607523034235 / 576460752303423488"
    using fl_value[where k = 59 and n = 5764607523034235 and x = "1 / 100"] by simp
  have f5: "fl (1 / 20) = 3602879701896397 / 72057594037927936"
    using fl_value[where k = 57 and n = 7205759403792794 and x = "1 / 20"] by simp
  have f6: "fl (3602879701896397 / 72057594037927936) = 3602879701896397 / 72057594037927936"
    using fl_value[where k = 57 and n = 7205759403792794 and x = "3602879701896397 / 72057594037927936"] by simp
  have f7: "fl (15852670688344145 / 288230376151711744) = 990791918021509 / 18014398509481984"
    using fl_value_tie[where k = 57 and n = 7926335344172072 and x = "15852670688344145 / 288230376151711744"] by simp
  have f8: "fl (34587645138205411 / 576460752303423488) = 8646911284551353 / 144115188075855872"
    using fl_value[where k = 57 and n = 8646911284551353 and x = "34587645138205411 / 576460752303423488"] by simp
  have f9: "fl (4 / 25) = 5764607523034235 / 36028797018963968"
    using fl_value[where k = 55 and n = 5764607523034235 and x = "4 / 25"] by simp
  have f10: "fl (47558012065032435 / 288230376151711744) = 2972375754064527 / 18014398509481984"
    using fl_value[where k = 55 and n = 5944751508129054 and x = "47558012065032435 / 288230376151711744"] by simp
  have f11: "fl (15132094747964867 / 72057594037927936) = 3783023686991217 / 18014398509481984"
    using fl_value_tie[where k = 55 and n = 7566047373982434 and x = "15132094747964867 / 72057594037927936"] by simp
  have f12: "fl (11 / 50) = 7926335344172073 / 36028797018963968"
    using fl_value[where k = 55 and n = 7926335344172073 and x = "11 / 50"] by simp
  have f13: "fl (9007199254740975 / 9007199254740992) = 9007199254740975 / 9007199254740992"
    using fl_value[where k = 53 and n = 9007199254740975 and x = "9007199254740975 / 9007199254740992"] by simp
  have f14: "fl (24769797950537725 / 4503599627370496) = 6192449487634431 / 1125899906842624"
    using fl_value[where k = 50 and n = 6192449487634431 and x = "24769797950537725 / 4503599627370496"] by simp
  have f15: "fl (10) = 10"
    using fl_value[where k = 49 and n = 5629499534213120 and x = "10"] by simp
  have f16: "fl (74309393851613175 / 4503599627370496) = 4644337115725823 / 281474976710656"
    using fl_value[where k = 48 and n = 4644337115725823 and x = "74309393851613175 / 4503599627370496"] by simp
  have f17: "fl (30) = 30"
    using fl_value[where k = 48 and n = 8444249301319680 and x = "30"] by simp
  have f18: "fl (1433225545414386647 / 36028797018963968) = 1399634321693737 / 35184372088832"
    using fl_value[where k = 47 and n = 5598537286774948 and x = "1433225545414386647 / 36028797018963968"] by simp
  have f19: "fl (40) = 40"
    using fl_value[where k = 47 and n = 5629499534213120 and x = "40"] by simp
  note fls = f1 f2 f3 f4 f5 f6 f7 f8 f9 f10 f11 f12 f13 f14 f15 f16 f17 f18 f19
  have m: "fl (22 / 100) = 7926335344172073 / 36028797018963968" by (simp add: fls)
  have S: "total_amount ten_thirty = 40"
    by (simp add: total_amount_def ten_thirty_def parseFloat_def fls)
  have g: "fl (1 / 1000) < \<bar>fl (fl (22 / 100) - total_amount ten_thirty)\<bar>"
    unfolding S m by (simp add: fls fl_minus)
  have sc: "map tx_amount (scaled_transactions (3170534137668829 / 576460752303423488) ten_thirty) = [1 / 20, 4 / 25]"
    by (simp add: scaled_transactions_def ten_thirty_def parseFloat_def
        round2_def Math_round_def toFixed2_def Let_def fls fl_minus floor_eval)
  have nt: "total_amount (scaled_transactions (3170534137668829 / 576460752303423488) ten_thirty) = 3783023686991217 / 18014398509481984"
    by (simp add: total_amount_def scaled_transactions_def ten_thirty_def parseFloat_def
        round2_def Math_round_def toFixed2_def Let_def fls fl_minus floor_eval)
  have res: "residual (7926335344172073 / 36028797018963968) (scaled_transactions (3170534137668829 / 576460752303423488) ten_thirty) = 5764607523034235 / 576460752303423488"
    unfolding residual_def nt by (simp add: round2_def Math_round_def fls fl_minus fl_0 floor_eval)
  have ar: "map tx_amount (add_residual (5764607523034235 / 576460752303423488) (scaled_transactions (3170534137668829 / 576460752303423488) ten_thirty)) = [3 / 50, 4 / 25]"
    by (simp add: add_residual_def scaled_transactions_def ten_thirty_def parseFloat_def
        round2_def Math_round_def toFixed2_def Let_def fls fl_minus floor_eval)
  have ne: "ten_thirty \<noteq> []" by (simp add: ten_thirty_def)
  have r: "reconcile (Some (fl (22 / 100))) ten_thirty
      = add_residual (5764607523034235 / 576460752303423488) (scaled_transactions (3170534137668829 / 576460752303423488) ten_thirty)"
    using g ne unfolding m by (simp add: reconcile_def Let_def S res fls)
  have sc0: "tx_amount (hd (scaled_transactions (3170534137668829 / 576460752303423488) ten_thirty)) = 1 / 20"
    by (simp add: scaled_transactions_def ten_thirty_def parseFloat_def
        round2_def Math_round_def toFixed2_def Let_def fls fl_minus floor_eval)
  have scale: "fl (7926335344172073 / 36028797018963968 / total_amount ten_thirty) = 3170534137668829 / 576460752303423488" unfolding S by (simp add: fls)
  have first: "fl (parseFloat (1 / 20) + 5764607523034235 / 576460752303423488) = 8646911284551353 / 144115188075855872" by (simp add: parseFloat_def fls fl_minus)

  show ?thesis unfolding r ar by simp
qed

text \<open>
  C6, as the code has it. The claim is that the kept suggested transactions are used
  unchanged whenever the manual amount \<open>M\<close> is within 0.001 of the suggested total \<open>S\<close>, or
  \<open>S\<close> is 0. The code compares binary64 numbers: the manual amount as parsed from the
  request, the total as accumulated by \<^verbatim>\<open>reduce\<close>, their difference as rounded by the
  subtraction. When these two numbers are at most 0.001 apart, or the total is not
  positive, nothing is scaled and no residual is added.
\<close>

theorem reconcile_identity:
  "\<bar>m - total_amount ts\<bar> \<le> 1 / 1000 \<or> total_amount ts \<le> 0 \<Longrightarrow> reconcile (Some m) ts = ts"
proof -
  assume h: "\<bar>m - total_amount ts\<bar> \<le> 1 / 1000 \<or> total_amount ts \<le> 0"
  show ?thesis
  proof (cases "total_amount ts \<le> 0")
    case True
    then show ?thesis by (simp add: reconcile_def Let_def)
  next
    case False
    with h have "\<bar>m - total_amount ts\<bar> \<le> 1 / 1000" by simp
    then have "\<bar>fl (m - total_amount ts)\<bar> \<le> fl (1 / 1000)" by (rule fl_abs_le)
    then have "\<not> fl (1 / 1000) < \<bar>fl (m - total_amount ts)\<bar>" by simp
    then show ?thesis by (simp add: reconcile_def Let_def)
  qed
qed

text \<open>Three transactions of 1.00 and a manual amount of 3.0005.\<close>

theorem reconcile_identity_witness:
  "(\<bar>fl (6001 / 2000) - total_amount thirds\<bar> \<le> 1 / 1000 \<or> total_amount thirds \<le> 0)
   \<and> reconcile (Some (fl (6001 / 2000))) thirds = thirds"
proof -
  have f1: "fl (1125899906843 / 2251799813685248) = 1125899906843 / 2251799813685248"
    using fl_value[where k = 63 and n = 4611686018428928 and x = "1125899906843 / 2251799813685248"] by simp
  have f2: "fl (1 / 1000) = 1152921504606847 / 1152921504606846976"
    using fl_value[where k = 62 and n = 4611686018427388 and x = "1 / 1000"] by simp
  have f3: "fl (1) = 1"
    using fl_value[where k = 52 and n = 4503599627370496 and x = "1"] by simp
  have f4: "fl (2) = 2"
    using fl_value[where k = 51 and n = 4503599627370496 and x = "2"] by simp
  have f5: "fl (3) = 3"
    using fl_value[where k = 51 and n = 6755399441055744 and x = "3"] by simp
  have f6: "fl (6001 / 2000) = 6756525340962587 / 2251799813685248"
    using fl_value[where k = 51 and n = 6756525340962587 and x = "6001 / 2000"] by simp
  note fls = f1 f2 f3 f4 f5 f6
  have m: "fl (6001 / 2000) = 6756525340962587 / 2251799813685248" by (simp add: fls)
  have S: "total_amount thirds = 3"
    by (simp add: total_amount_def thirds_def parseFloat_def fls)

  have "\<bar>fl (6001 / 2000) - total_amount thirds\<bar> \<le> 1 / 1000" unfolding S m by simp
  then have h: "\<bar>fl (6001 / 2000) - total_amount thirds\<bar> \<le> 1 / 1000 \<or> total_amount thirds \<le> 0" ..
  show ?thesis
    using h reconcile_identity [OF h] by (rule conjI)
qed

text \<open>
  Where C6 as stated fails: one suggested transaction of 0.105 and a manual amount of
  0.106. As decimals they are 0.001 apart, but the binary64 numbers nearest to them are
  farther apart, the subtraction gives a number above the binary64 \<^verbatim>\<open>0.001\<close>, and the
  transaction is scaled: 0.11 is submitted instead of 0.105.
\<close>

theorem reconcile_identity_counterexample:
  "\<bar>(106 / 1000 :: rat) - 105 / 1000\<bar> \<le> 1 / 1000
   \<and> total_amount [odd_transaction] = fl (105 / 1000)
   \<and> fl (1 / 1000) < \<bar>fl (fl (106 / 1000) - total_amount [odd_transaction])\<bar>
   \<and> map tx_amount (reconcile (Some (fl (106 / 1000))) [odd_transaction]) = [11 / 100]
   \<and> reconcile (Some (fl (106 / 1000))) [odd_transaction] \<noteq> [odd_transaction]"
proof -
  have f1: "fl (1 / 1000) = 1152921504606847 / 1152921504606846976"
    using fl_value[where k = 62 and n = 4611686018427388 and x = "1 / 1000"] by simp
  have f2: "fl (9007199254741 / 9007199254740992) = 9007199254741 / 9007199254740992"
    using fl_value[where k = 62 and n = 4611686018427392 and x = "9007199254741 / 9007199254740992"] by simp
  have f3: "fl (9007199254741 / 2251799813685248) = 9007199254741 / 2251799813685248"
    using fl_value[where k = 60 and n = 4611686018427392 and x = "9007199254741 / 2251799813685248"] by simp
  have f4: "fl (7566047373982433 / 72057594037927936) = 7566047373982433 / 72057594037927936"
    using fl_value[where k = 56 and n = 7566047373982433 and x = "7566047373982433 / 72057594037927936"] by simp
  have f5: "fl (21 / 200) = 7566047373982433 / 72057594037927936"
    using fl_value[where k = 56 and n = 7566047373982433 and x = "21 / 200"] by simp
  have f6: "fl (2149935417987076913317221181511 / 20282409603651670423947251286016) = 7638104968020361 / 72057594037927936"
    using fl_value[where k = 56 and n = 7638104968020361 and x = "2149935417987076913317221181511 / 20282409603651670423947251286016"] by simp
  have f7: "fl (53 / 500) = 7638104968020361 / 72057594037927936"
    using fl_value[where k = 56 and n = 7638104968020361 and x = "53 / 500"] by simp
  have f8: "fl (11 / 100) = 7926335344172073 / 72057594037927936"
    using fl_value[where k = 56 and n = 7926335344172073 and x = "11 / 100"] by simp
  have f9: "fl (7926335344172073 / 72057594037927936) = 7926335344172073 / 72057594037927936"
    using fl_value[where k = 56 and n = 7926335344172073 and x = "7926335344172073 / 72057594037927936"] by simp
  have f10: "fl (225179981368525 / 562949953421312) = 225179981368525 / 562949953421312"
    using fl_value[where k = 54 and n = 7205759403792800 and x = "225179981368525 / 562949953421312"] by simp
  have f11: "fl (7638104968020361 / 7566047373982433) = 284155690774567 / 281474976710656"
    using fl_value[where k = 52 and n = 4546491052393072 and x = "7638104968020361 / 7566047373982433"] by simp
  have f12: "fl (190952624200509025 / 18014398509481984) = 5967269506265907 / 562949953421312"
    using fl_value[where k = 49 and n = 5967269506265907 and x = "190952624200509025 / 18014398509481984"] by simp
  note fls = f1 f2 f3 f4 f5 f6 f7 f8 f9 f10 f11 f12
  have m: "fl (106 / 1000) = 7638104968020361 / 72057594037927936" by (simp add: fls)
  have S: "total_amount [odd_transaction] = 7566047373982433 / 72057594037927936"
    by (simp add: total_amount_def odd_transaction_def parseFloat_def fls)
  have g: "fl (1 / 1000) < \<bar>fl (fl (106 / 1000) - total_amount [odd_transaction])\<bar>"
    unfolding S m by (simp add: fls fl_minus)
  have sc: "map tx_amount (scaled_transactions (284155690774567 / 281474976710656) [odd_transaction]) = [11 / 100]"
    by (simp add: scaled_transactions_def odd_transaction_def parseFloat_def
        round2_def Math_round_def toFixed2_def Let_def fls fl_minus floor_eval)
  have nt: "total_amount (scaled_transactions (284155690774567 / 281474976710656) [odd_transaction]) = 7926335344172073 / 72057594037927936"
    by (simp add: total_amount_def scaled_transactions_def odd_transaction_def parseFloat_def
        round2_def Math_round_def toFixed2_def Let_def fls fl_minus floor_eval)
  have res: "residual (7638104968020361 / 72057594037927936) (scaled_transactions (284155690774567 / 281474976710656) [odd_transaction]) = 0"
    unfolding residual_def nt by (simp add: round2_def Math_round_def fls fl_minus fl_0 floor_eval)
  have ar: "map tx_amount (add_residual (0) (scaled_transactions (284155690774567 / 281474976710656) [odd_transaction])) = [11 / 100]"
    by (simp add: add_residual_def scaled_transactions_def odd_transaction_def parseFloat_def
        round2_def Math_round_def toFixed2_def Let_def fls fl_minus floor_eval)
  have ne: "[odd_transaction] \<noteq> []" by (simp add: odd_transaction_def)
  have r: "reconcile (Some (fl (106 / 1000))) [odd_transaction]
      = add_residual (0) (scaled_transactions (284155690774567 / 281474976710656) [odd_transaction])"
    using g ne unfolding m by (simp add: reconcile_def Let_def S res fls)

  have d: "\<bar>(106 / 1000 :: rat) - 105 / 1000\<bar> \<le> 1 / 1000" by simp
  have S': "total_amount [odd_transaction] = fl (105 / 1000)" unfolding S by (simp add: fls)
  have a: "map tx_amount (reconcile (Some (fl (106 / 1000))) [odd_transaction]) = [11 / 100]"
    unfolding r ar ..
  have "map tx_amount [odd_transaction] \<noteq> [11 / 100]" by (simp add: odd_transaction_def)
  with a have n: "reconcile (Some (fl (106 / 1000))) [odd_transaction] \<noteq> [odd_transaction]" by metis
  show ?thesis using d S' g a n by (intro conjI)
qed

subsection \<open>Partial refunds\<close>

lemma collect_items_not_found:
  "\<exists>r \<in> set rs. 0 < quantity r \<and> m (lineItemId r) = None \<Longrightarrow>
   \<exists>i. collect_items m rt rs acc = Inl (LineItemNotFound i) \<and> m i = None
       \<and> (\<exists>r \<in> set rs. lineItemId r = i \<and> 0 < quantity r)"
proof (induction rs arbitrary: acc)
  case Nil
  then show ?case by simp
next
  case (Cons r rs)
  show ?case
  proof (cases "0 < quantity r \<and> m (lineItemId r) = None")
    case True
    then show ?thesis by auto
  next
    case False
    with Cons.prems have ex: "\<exists>r \<in> set rs. 0 < quantity r \<and> m (lineItemId r) = None" by auto
    have ih: "\<exists>i. collect_items m rt rs acc' = Inl (LineItemNotFound i) \<and> m i = None
       \<and> (\<exists>r \<in> set rs. lineItemId r = i \<and> 0 < quantity r)" for acc'
      using Cons.IH[OF ex] .
    show ?thesis
    proof (cases "quantity r \<le> 0")
      case True
      then show ?thesis using ih[of acc] by auto
    next
      case q: False
      with False obtain li where li: "m (lineItemId r) = Some li" by auto
      show ?thesis
      proof (cases "0 < min (quantity r) (li_quantity li)")
        case True
        then show ?thesis
          using q li ih[of "acc @ [\<lparr>line_item_id = lineItemId r, rli_quantity = min (quantity r) (li_quantity li), restock_type = Some rt\<rparr>]"]
          by (auto simp: Let_def)
      next
        case False
        then show ?thesis using q li ih[of acc] by (auto simp: Let_def)
      qed
    qed
  qed
qed

lemma collect_items_set:
  "collect_items m rt rs acc = Inr items \<Longrightarrow>
   set items = set acc \<union>
     {\<lparr>line_item_id = lineItemId r, rli_quantity = min (quantity r) (li_quantity li),
       restock_type = Some rt\<rparr> | r li.
        r \<in> set rs \<and> m (lineItemId r) = Some li \<and> 0 < min (quantity r) (li_quantity li)}"
proof (induction rs arbitrary: acc)
  case Nil
  then show ?case by simp
next
  case (Cons r rs)
  show ?case
  proof (cases "quantity r \<le> 0")
    case True
    with Cons.prems have "collect_items m rt rs acc = Inr items" by simp
    from Cons.IH[OF this] True show ?thesis by auto
  next
    case q: False
    with Cons.prems obtain li where li: "m (lineItemId r) = Some li"
      by (cases "m (lineItemId r)") auto
    show ?thesis
    proof (cases "0 < min (quantity r) (li_quantity li)")
      case True
      with Cons.prems q li have "collect_items m rt rs (acc @ [\<lparr>line_item_id = lineItemId r, rli_quantity = min (quantity r) (li_quantity li), restock_type = Some rt\<rparr>]) = Inr items"
        by (simp add: Let_def)
      from Cons.IH[OF this] True li show ?thesis by auto
    next
      case False
      with Cons.prems q li have "collect_items m rt rs acc = Inr items" by (simp add: Let_def)
      from Cons.IH[OF this] False li show ?thesis by auto
    qed
  qed
qed

text \<open>
  C3, as the code has it. The claim is that a partial refund whose list names a line item
  that is not on the order fails, whatever quantity is asked for that id. The loop skips
  an entry whose quantity is not positive before it looks the id up
  (\<^verbatim>\<open>if (quantity <= 0) continue\<close>), so only an unknown id with a positive quantity is an
  error: then \<^verbatim>\<open>refundPartialOrder\<close> throws "Line item ... not found in order" for such an
  id and nothing is sent to the provider.
\<close>

theorem partial_refund_unknown_id:
  assumes "getOrder p orderId = Inr order"
    and "\<exists>r \<in> set refundLineItems. 0 < quantity r \<and> byId order (lineItemId r) = None"
  shows "\<exists>i. refundPartialOrder p orderId refundLineItems restockType note manualRefundAmount
               = Inl (LineItemNotFound i)
             \<and> byId order i = None
             \<and> (\<exists>r \<in> set refundLineItems. lineItemId r = i \<and> 0 < quantity r)"
proof -
  from assms(2) have ne: "refundLineItems \<noteq> []" by auto
  from collect_items_not_found[OF assms(2)]
  obtain i where i: "collect_items (byId order) (case restockType of Some r \<Rightarrow> r | None \<Rightarrow> ''no_restock'')
        refundLineItems [] = Inl (LineItemNotFound i)"
    "byId order i = None" "\<exists>r \<in> set refundLineItems. lineItemId r = i \<and> 0 < quantity r"
    by blast
  have "refundPartialOrder p orderId refundLineItems restockType note manualRefundAmount
               = Inl (LineItemNotFound i)"
    using ne assms(1) i(1) by (simp add: refundPartialOrder_def partial_refund_items_def)
  with i show ?thesis by blast
qed

theorem partial_refund_unknown_id_witness:
  "getOrder example_provider 1 = Inr example_order
   \<and> (\<exists>r \<in> set [\<lparr>lineItemId = 999, quantity = 1\<rparr>]. 0 < quantity r \<and> byId example_order (lineItemId r) = None)
   \<and> (\<exists>i. refundPartialOrder example_provider 1 [\<lparr>lineItemId = 999, quantity = 1\<rparr>] None None None
               = Inl (LineItemNotFound i)
             \<and> byId example_order i = None
             \<and> (\<exists>r \<in> set [\<lparr>lineItemId = 999, quantity = 1\<rparr>]. lineItemId r = i \<and> 0 < quantity r))"
proof -
  have a: "getOrder example_provider 1 = Inr example_order"
    by (simp add: getOrder_def example_provider_def)
  have b: "\<exists>r \<in> set [\<lparr>lineItemId = 999, quantity = 1\<rparr>]. 0 < quantity r \<and> byId example_order (lineItemId r) = None"
    by (simp add: byId_def example_order_def)
  show ?thesis
    using a b partial_refund_unknown_id[OF a b, of None None None] by blast
qed

text \<open>
  Where the claim as stated fails: the order has line item 11 only, the request asks for
  quantity 0 of the unknown id 999 and quantity 1 of item 11. The entry for 999 is dropped
  without an error and the refund of item 11 is submitted.
\<close>

theorem partial_refund_unknown_id_counterexample:
  "byId example_order 999 = None
   \<and> refundPartialOrder example_provider 1
        [\<lparr>lineItemId = 999, quantity = 0\<rparr>, \<lparr>lineItemId = 11, quantity = 1\<rparr>] None None None
      = Inr \<lparr>cr_note = default_note,
             cr_transactions = Some [\<lparr>tx_parent_id = 7, tx_amount = 20, tx_kind = ''refund'', tx_gateway = ''manual''\<rparr>],
             cr_fields = []\<rparr>
   \<and> partial_refund_items example_order None
        [\<lparr>lineItemId = 999, quantity = 0\<rparr>, \<lparr>lineItemId = 11, quantity = 1\<rparr>]
      = Inr [\<lparr>line_item_id = 11, rli_quantity = 1, restock_type = Some ''no_restock''\<rparr>]"
  by (simp add: byId_def example_order_def refundPartialOrder_def getOrder_def example_provider_def
      partial_refund_items_def executeRefund_def createRefund_def example_payload_def
      keep_transactions_def reconcile_def Let_def)

text \<open>
  C7. Clamping in a partial refund: every item sent on has a positive quantity, which is
  the minimum of the quantity asked for and the quantity of that line item on the order;
  every entry whose clamped quantity is positive is sent on; the items are what
  \<^verbatim>\<open>executeRefund\<close> is called with, and exactly these items are the \<^verbatim>\<open>refund_line_items\<close> of
  the calculate request to the provider, whose answer to that request decides the outcome;
  and when no entry has a positive quantity after clamping (an empty list, or quantities
  that are all 0), the operation fails.
\<close>

theorem partial_refund_clamping:
  "(partial_refund_items order restockType refundLineItems = Inr items \<longrightarrow>
      items \<noteq> []
      \<and> (\<forall>it \<in> set items. 0 < rli_quantity it
            \<and> (\<exists>r \<in> set refundLineItems. \<exists>li. byId order (lineItemId r) = Some li
                  \<and> line_item_id it = lineItemId r
                  \<and> rli_quantity it = min (quantity r) (li_quantity li)))
      \<and> (\<forall>r \<in> set refundLineItems. \<forall>li. byId order (lineItemId r) = Some li
            \<and> 0 < min (quantity r) (li_quantity li) \<longrightarrow>
            (\<exists>it \<in> set items. line_item_id it = lineItemId r
                  \<and> rli_quantity it = min (quantity r) (li_quantity li)))
      \<and> (getOrder p orderId = Inr order \<longrightarrow>
            refundPartialOrder p orderId refundLineItems restockType note manualRefundAmount
              = executeRefund p orderId order items note manualRefundAmount)
      \<and> (getOrder p orderId = Inr order \<longrightarrow>
            refundPartialOrder p orderId refundLineItems restockType note manualRefundAmount
              = (case calculate_result p orderId (so_currency order) items
                        (case note of Some n \<Rightarrow> n | None \<Rightarrow> default_note) of
                   Inl (message, status) \<Rightarrow> Inl (ShopifyError message status)
                 | Inr None \<Rightarrow> Inl NoRefundPayload
                 | Inr (Some refundPayload) \<Rightarrow>
                     (case create_result p orderId
                             (createRefund note manualRefundAmount refundPayload) of
                        Some (message, status) \<Rightarrow> Inl (ShopifyError message status)
                      | None \<Rightarrow> Inr (createRefund note manualRefundAmount refundPayload)))))
   \<and> ((\<forall>r \<in> set refundLineItems. \<forall>li. byId order (lineItemId r) = Some li
            \<longrightarrow> min (quantity r) (li_quantity li) \<le> 0) \<longrightarrow>
        isl (partial_refund_items order restockType refundLineItems)
        \<and> (getOrder p orderId = Inr order \<longrightarrow>
              isl (refundPartialOrder p orderId refundLineItems restockType note manualRefundAmount)))"
proof (intro conjI impI)
  let ?rt = "case restockType of Some r \<Rightarrow> r | None \<Rightarrow> ''no_restock''"
  {
    assume ok: "partial_refund_items order restockType refundLineItems = Inr items"
    then have c: "collect_items (byId order) ?rt refundLineItems [] = Inr items" and ne: "items \<noteq> []"
      by (auto simp: partial_refund_items_def split: sum.splits if_splits)
    note s = collect_items_set[OF c]
    show "items \<noteq> []" by (rule ne)
    show "\<forall>it \<in> set items. 0 < rli_quantity it
            \<and> (\<exists>r \<in> set refundLineItems. \<exists>li. byId order (lineItemId r) = Some li
                  \<and> line_item_id it = lineItemId r
                  \<and> rli_quantity it = min (quantity r) (li_quantity li))"
    proof
      fix it
      assume "it \<in> set items"
      then obtain r li where r: "r \<in> set refundLineItems" "byId order (lineItemId r) = Some li"
        and pos: "0 < min (quantity r) (li_quantity li)"
        and it: "it = \<lparr>line_item_id = lineItemId r, rli_quantity = min (quantity r) (li_quantity li),
                    restock_type = Some ?rt\<rparr>"
        unfolding s by auto
      have "\<exists>li. byId order (lineItemId r) = Some li \<and> line_item_id it = lineItemId r
                  \<and> rli_quantity it = min (quantity r) (li_quantity li)"
        using r(2) it by simp
      with r(1) pos it show "0 < rli_quantity it
            \<and> (\<exists>r \<in> set refundLineItems. \<exists>li. byId order (lineItemId r) = Some li
                  \<and> line_item_id it = lineItemId r
                  \<and> rli_quantity it = min (quantity r) (li_quantity li))"
        by (simp del: min_less_iff_conj) blast
    qed
    show "\<forall>r \<in> set refundLineItems. \<forall>li. byId order (lineItemId r) = Some li
            \<and> 0 < min (quantity r) (li_quantity li) \<longrightarrow>
            (\<exists>it \<in> set items. line_item_id it = lineItemId r
                  \<and> rli_quantity it = min (quantity r) (li_quantity li))"
    proof (intro ballI allI impI)
      fix r li
      assume r: "r \<in> set refundLineItems"
        and li: "byId order (lineItemId r) = Some li \<and> 0 < min (quantity r) (li_quantity li)"
      let ?it = "\<lparr>line_item_id = lineItemId r, rli_quantity = min (quantity r) (li_quantity li),
                    restock_type = Some ?rt\<rparr>"
      have "?it \<in> set items" unfolding s using r li by blast
      then show "\<exists>it \<in> set items. line_item_id it = lineItemId r
                  \<and> rli_quantity it = min (quantity r) (li_quantity li)"
        by (rule bexI[rotated]) simp
    qed
    have rne: "refundLineItems \<noteq> []" using c ne by (cases refundLineItems) auto
    then show e: "refundPartialOrder p orderId refundLineItems restockType note manualRefundAmount
              = executeRefund p orderId order items note manualRefundAmount"
      if "getOrder p orderId = Inr order"
      using that ok by (simp add: refundPartialOrder_def)
    show "refundPartialOrder p orderId refundLineItems restockType note manualRefundAmount
              = (case calculate_result p orderId (so_currency order) items
                        (case note of Some n \<Rightarrow> n | None \<Rightarrow> default_note) of
                   Inl (message, status) \<Rightarrow> Inl (ShopifyError message status)
                 | Inr None \<Rightarrow> Inl NoRefundPayload
                 | Inr (Some refundPayload) \<Rightarrow>
                     (case create_result p orderId
                             (createRefund note manualRefundAmount refundPayload) of
                        Some (message, status) \<Rightarrow> Inl (ShopifyError message status)
                      | None \<Rightarrow> Inr (createRefund note manualRefundAmount refundPayload)))"
      if "getOrder p orderId = Inr order"
      unfolding e[OF that] executeRefund_def
      by (simp add: Let_def split: sum.splits option.splits prod.splits)
  }
  assume none: "\<forall>r \<in> set refundLineItems. \<forall>li. byId order (lineItemId r) = Some li
            \<longrightarrow> min (quantity r) (li_quantity li) \<le> 0"
  show a: "isl (partial_refund_items order restockType refundLineItems)"
  proof (cases "collect_items (byId order) ?rt refundLineItems []")
    case (Inl e)
    then show ?thesis by (simp add: partial_refund_items_def)
  next
    case (Inr its)
    have "its = []"
    proof (rule ccontr)
      assume "its \<noteq> []"
      then obtain it where "it \<in> set its" by (cases its) auto
      then obtain r li where r: "r \<in> set refundLineItems" "byId order (lineItemId r) = Some li"
        and pos: "0 < min (quantity r) (li_quantity li)"
        unfolding collect_items_set[OF Inr] by auto
      from none r have le: "min (quantity r) (li_quantity li) \<le> 0" by blast
      from leD [OF le] pos show False by blast
    qed
    then show ?thesis using Inr by (simp add: partial_refund_items_def)
  qed
  show "isl (refundPartialOrder p orderId refundLineItems restockType note manualRefundAmount)"
    if "getOrder p orderId = Inr order"
    using a that by (auto simp: refundPartialOrder_def split: sum.splits)
qed

text \<open>
  A request for 5 of line item 11, of which the order has 2: the quantity sent on is 2, and
  the provider that calculates a refund for 2 of item 11 only lets the refund through. A
  request for 0 of it fails.
\<close>

theorem partial_refund_clamping_witness:
  "partial_refund_items example_order None [\<lparr>lineItemId = 11, quantity = 5\<rparr>]
     = Inr [\<lparr>line_item_id = 11, rli_quantity = 2, restock_type = Some ''no_restock''\<rparr>]
   \<and> getOrder strict_provider 1 = Inr example_order
   \<and> refundPartialOrder strict_provider 1 [\<lparr>lineItemId = 11, quantity = 5\<rparr>] None None None
     = executeRefund strict_provider 1 example_order
         [\<lparr>line_item_id = 11, rli_quantity = 2, restock_type = Some ''no_restock''\<rparr>] None None
   \<and> refundPartialOrder strict_provider 1 [\<lparr>lineItemId = 11, quantity = 5\<rparr>] None None None
     = Inr \<lparr>cr_note = default_note,
            cr_transactions = Some [\<lparr>tx_parent_id = 7, tx_amount = 20, tx_kind = ''refund'', tx_gateway = ''manual''\<rparr>],
            cr_fields = []\<rparr>
   \<and> calculate_result strict_provider 1 ''USD'' [] default_note = Inl (''unexpected line items'', 422)
   \<and> byId example_order 11 = Some \<lparr>li_id = 11, li_quantity = 2, li_price = ''10.00'', li_title = ''Leash''\<rparr>
   \<and> isl (refundPartialOrder strict_provider 1 [\<lparr>lineItemId = 11, quantity = 0\<rparr>] None None None)"
proof -
  let ?items = "[\<lparr>line_item_id = 11, rli_quantity = 2, restock_type = Some ''no_restock''\<rparr>]"
  have l: "byId example_order 11 = Some \<lparr>li_id = 11, li_quantity = 2, li_price = ''10.00'', li_title = ''Leash''\<rparr>"
    by (simp add: byId_def example_order_def)
  have a: "partial_refund_items example_order None [\<lparr>lineItemId = 11, quantity = 5\<rparr>] = Inr ?items"
    by (simp add: partial_refund_items_def byId_def example_order_def)
  have b: "getOrder strict_provider 1 = Inr example_order"
    by (simp add: getOrder_def strict_provider_def)
  have c: "\<forall>r \<in> set [\<lparr>lineItemId = 11, quantity = 0\<rparr>]. \<forall>li. byId example_order (lineItemId r) = Some li
         \<longrightarrow> min (quantity r) (li_quantity li) \<le> 0"
    by (simp add: byId_def example_order_def)
  have calc: "calculate_result strict_provider 1 (so_currency example_order) ?items
                (case None of Some n \<Rightarrow> n | None \<Rightarrow> default_note) = Inr (Some example_payload)"
    by (simp add: strict_provider_def)
  have calc0: "calculate_result strict_provider 1 ''USD'' [] default_note = Inl (''unexpected line items'', 422)"
    by (simp add: strict_provider_def)
  have crt: "create_result strict_provider 1 body = None" for body
    by (simp add: strict_provider_def)
  have body: "createRefund None None example_payload
      = \<lparr>cr_note = default_note,
         cr_transactions = Some [\<lparr>tx_parent_id = 7, tx_amount = 20, tx_kind = ''refund'', tx_gateway = ''manual''\<rparr>],
         cr_fields = []\<rparr>"
    by (simp add: createRefund_def example_payload_def keep_transactions_def reconcile_def)
  note t = partial_refund_clamping [of example_order None "[\<lparr>lineItemId = 11, quantity = 5\<rparr>]"
      ?items strict_provider 1 None None]
  from a b t
  have d: "refundPartialOrder strict_provider 1 [\<lparr>lineItemId = 11, quantity = 5\<rparr>] None None None
     = executeRefund strict_provider 1 example_order ?items None None"
    by blast
  from a b t
  have "refundPartialOrder strict_provider 1 [\<lparr>lineItemId = 11, quantity = 5\<rparr>] None None None
     = (case calculate_result strict_provider 1 (so_currency example_order) ?items
                        (case None of Some n \<Rightarrow> n | None \<Rightarrow> default_note) of
                   Inl (message, status) \<Rightarrow> Inl (ShopifyError message status)
                 | Inr None \<Rightarrow> Inl NoRefundPayload
                 | Inr (Some refundPayload) \<Rightarrow>
                     (case create_result strict_provider 1 (createRefund None None refundPayload) of
                        Some (message, status) \<Rightarrow> Inl (ShopifyError message status)
                      | None \<Rightarrow> Inr (createRefund None None refundPayload)))"
    by blast
  then have f: "refundPartialOrder strict_provider 1 [\<lparr>lineItemId = 11, quantity = 5\<rparr>] None None None
     = Inr \<lparr>cr_note = default_note,
            cr_transactions = Some [\<lparr>tx_parent_id = 7, tx_amount = 20, tx_kind = ''refund'', tx_gateway = ''manual''\<rparr>],
            cr_fields = []\<rparr>"
    unfolding calc by (simp add: crt body)
  from b c
    partial_refund_clamping [of example_order None "[\<lparr>lineItemId = 11, quantity = 0\<rparr>]"
      "[]" strict_provider 1 None None]
  have e: "isl (refundPartialOrder strict_provider 1 [\<lparr>lineItemId = 11, quantity = 0\<rparr>] None None None)"
    by blast
  show ?thesis using a b d f calc0 e l by (intro conjI)
qed

subsection \<open>The manual amount in the route\<close>

text \<open>
  C4, as the code has it. The claim is that a manual refund amount that is not positive is
  rejected as a validation error. The route passes a manual amount on only when it is
  positive (\<^verbatim>\<open>body.refundAmount > 0 ? body.refundAmount : undefined\<close>), and \<^verbatim>\<open>executeRefund\<close>
  tests \<^verbatim>\<open>manualRefundAmount > 0\<close> again: an amount that is not positive is ignored, and the
  refund goes through exactly as when no amount is given.
\<close>

theorem nonpositive_manual_amount_ignored:
  "a \<le> 0 \<Longrightarrow>
   refund_route p requestId orderId (body\<lparr>rb_refundAmount := Some a\<rparr>)
     = refund_route p requestId orderId (body\<lparr>rb_refundAmount := None\<rparr>)"
proof -
  assume "a \<le> 0"
  then have m: "manualAmount (body\<lparr>rb_refundAmount := Some a\<rparr>) = manualAmount (body\<lparr>rb_refundAmount := None\<rparr>)"
    by (simp add: manualAmount_def)
  show ?thesis
  proof (cases "rb_refundLineItems body")
    case None
    then show ?thesis using m by (simp add: refund_route_def)
  next
    case (Some xs)
    then show ?thesis using m by (cases xs) (simp_all add: refund_route_def)
  qed
qed

theorem nonpositive_manual_amount_ignored_witness:
  "(- 5 :: rat) \<le> 0
   \<and> refund_route example_provider ''r1'' 1
        (\<lparr>rb_refundLineItems = None, rb_restockType = None, rb_note = None, rb_refundAmount = Some 3\<rparr>
           \<lparr>rb_refundAmount := Some (- 5)\<rparr>)
     = refund_route example_provider ''r1'' 1
        (\<lparr>rb_refundLineItems = None, rb_restockType = None, rb_note = None, rb_refundAmount = Some 3\<rparr>
           \<lparr>rb_refundAmount := None\<rparr>)"
proof -
  have h: "(- 5 :: rat) \<le> 0" by simp
  show ?thesis
    using h nonpositive_manual_amount_ignored[OF h, of example_provider "''r1''" 1
        "\<lparr>rb_refundLineItems = None, rb_restockType = None, rb_note = None, rb_refundAmount = Some 3\<rparr>"]
    by blast
qed

text \<open>
  Where the claim as stated fails: a full refund with \<^verbatim>\<open>refundAmount: -5\<close> is answered with
  status 200, and the transaction the provider suggested (20.00) is submitted unchanged.
\<close>

theorem nonpositive_manual_amount_counterexample:
  "refund_route example_provider ''r1'' 1
     \<lparr>rb_refundLineItems = None, rb_restockType = None, rb_note = None, rb_refundAmount = Some (- 5)\<rparr>
   = Inr \<lparr>cr_note = ''Refund for help request r1'',
          cr_transactions = Some [\<lparr>tx_parent_id = 7, tx_amount = 20, tx_kind = ''refund'', tx_gateway = ''manual''\<rparr>],
          cr_fields = []\<rparr>
   \<and> refund_status (refund_route example_provider ''r1'' 1
     \<lparr>rb_refundLineItems = None, rb_restockType = None, rb_note = None, rb_refundAmount = Some (- 5)\<rparr>) = 200"
  by (simp add: refund_route_def manualAmount_def refundFullOrder_def getOrder_def
      example_provider_def example_order_def executeRefund_def createRefund_def example_payload_def
      keep_transactions_def reconcile_def refund_status_def Let_def)

section \<open>Properties of the request store\<close>

subsection \<open>Order numbers\<close>



text \<open>
  The \<^verbatim>\<open>#\<close> is removed before the white space: an order number with a space before the
  \<^verbatim>\<open>#\<close> keeps its \<^verbatim>\<open>#\<close>, and \<^verbatim>\<open>" #1001"\<close> is stored as \<^verbatim>\<open>"#1001"\<close>.
\<close>

theorem stored_order_number_space_hash:
  "stored_order_number '' #1001'' = ''#1001'' \<and> normalized '' #1001'' = ''#1001''"
  by (simp add: stored_order_number_def normalized_def strip_hash_def trim_def is_space_def)

subsection \<open>The invariant of reachable states\<close>

lemma open_statuses_index: "hr_status r \<in> set OPEN_STATUSES \<longleftrightarrow> in_open_index r"
  by (cases "hr_status r") (simp_all add: OPEN_STATUSES_def in_open_index_def)

lemma store_invariantI:
  assumes "distinct (map hr_id (help_requests db))"
    and "\<And>r1 r2. r1 \<in> set (help_requests db) \<Longrightarrow> r2 \<in> set (help_requests db) \<Longrightarrow>
           in_open_index r1 \<Longrightarrow> in_open_index r2 \<Longrightarrow> hr_order_number r1 = hr_order_number r2 \<Longrightarrow>
           hr_id r1 = hr_id r2"
    and "\<And>r. r \<in> set (help_requests db) \<Longrightarrow> hr_created_at r \<le> clock db"
    and "\<And>m. m \<in> set (chat_messages db) \<Longrightarrow>
           \<exists>r \<in> set (help_requests db). hr_id r = cm_request_id m \<and> hr_created_at r \<le> cm_created_at m"
  shows "store_invariant db"
  unfolding store_invariant_def using assms by blast

lemma invariant_distinct: "store_invariant db \<Longrightarrow> distinct (map hr_id (help_requests db))"
  by (simp add: store_invariant_def)

lemma invariant_open:
  "store_invariant db \<Longrightarrow> r1 \<in> set (help_requests db) \<Longrightarrow> r2 \<in> set (help_requests db) \<Longrightarrow>
   in_open_index r1 \<Longrightarrow> in_open_index r2 \<Longrightarrow> hr_order_number r1 = hr_order_number r2 \<Longrightarrow>
   hr_id r1 = hr_id r2"
  unfolding store_invariant_def by blast

lemma invariant_clock:
  "store_invariant db \<Longrightarrow> r \<in> set (help_requests db) \<Longrightarrow> hr_created_at r \<le> clock db"
  unfolding store_invariant_def by blast

lemma invariant_message:
  "store_invariant db \<Longrightarrow> m \<in> set (chat_messages db) \<Longrightarrow>
   \<exists>r \<in> set (help_requests db). hr_id r = cm_request_id m \<and> hr_created_at r \<le> cm_created_at m"
  unfolding store_invariant_def by blast

lemma invariant_initial: "store_invariant \<lparr>help_requests = [], chat_messages = [], clock = t\<rparr>"
  by (simp add: store_invariant_def)

lemma invariant_tick:
  assumes inv: "store_invariant db" and t: "clock db \<le> t"
  shows "store_invariant (db\<lparr>clock := t\<rparr>)"
proof (rule store_invariantI)
  show "distinct (map hr_id (help_requests (db\<lparr>clock := t\<rparr>)))"
    using invariant_distinct [OF inv] by simp
next
  fix r1 r2
  assume "r1 \<in> set (help_requests (db\<lparr>clock := t\<rparr>))" "r2 \<in> set (help_requests (db\<lparr>clock := t\<rparr>))"
    "in_open_index r1" "in_open_index r2" "hr_order_number r1 = hr_order_number r2"
  then show "hr_id r1 = hr_id r2" using invariant_open [OF inv, of r1 r2] by simp
next
  fix r
  assume "r \<in> set (help_requests (db\<lparr>clock := t\<rparr>))"
  then have "hr_created_at r \<le> clock db" using invariant_clock [OF inv, of r] by simp
  with t show "hr_created_at r \<le> clock (db\<lparr>clock := t\<rparr>)" by simp
next
  fix m
  assume "m \<in> set (chat_messages (db\<lparr>clock := t\<rparr>))"
  then show "\<exists>r \<in> set (help_requests (db\<lparr>clock := t\<rparr>)).
      hr_id r = cm_request_id m \<and> hr_created_at r \<le> cm_created_at m"
    using invariant_message [OF inv, of m] by simp
qed

lemma invariant_insert:
  assumes inv: "store_invariant db"
    and ins: "insert_help_request db row = Inr db'"
    and t: "hr_created_at row \<le> clock db"
  shows "store_invariant db'"
proof -
  have nex: "\<not> list_ex (\<lambda>r. hr_id r = hr_id row) (help_requests db)"
  proof
    assume "list_ex (\<lambda>r. hr_id r = hr_id row) (help_requests db)"
    then have "insert_help_request db row = Inl Unique_violation"
      by (simp add: insert_help_request_def)
    with ins show False by simp
  qed
  then have fresh: "hr_id r \<noteq> hr_id row" if "r \<in> set (help_requests db)" for r
    using that by (auto simp: list_ex_iff)
  have nconf: "\<not> (in_open_index row
      \<and> list_ex (\<lambda>r. in_open_index r \<and> hr_order_number r = hr_order_number row) (help_requests db))"
  proof
    assume "in_open_index row
      \<and> list_ex (\<lambda>r. in_open_index r \<and> hr_order_number r = hr_order_number row) (help_requests db)"
    then have "insert_help_request db row = Inl Unique_violation"
      by (simp add: insert_help_request_def)
    with ins show False by simp
  qed
  then have free: "hr_order_number r \<noteq> hr_order_number row"
    if "in_open_index row" "r \<in> set (help_requests db)" "in_open_index r" for r
    using that by (auto simp: list_ex_iff)
  have "insert_help_request db row = Inr (db\<lparr>help_requests := help_requests db @ [row]\<rparr>)"
    using nex nconf by (simp add: insert_help_request_def)
  with ins have db': "db' = db\<lparr>help_requests := help_requests db @ [row]\<rparr>"
    by simp
  have rows: "r \<in> set (help_requests db') \<longleftrightarrow> r = row \<or> r \<in> set (help_requests db)" for r
    by (auto simp: db')
  show ?thesis
  proof (rule store_invariantI)
    have "hr_id row \<notin> hr_id ` set (help_requests db)" using fresh by force
    then show "distinct (map hr_id (help_requests db'))"
      using invariant_distinct [OF inv] by (simp add: db')
  next
    fix r1 r2
    assume r: "r1 \<in> set (help_requests db')" "r2 \<in> set (help_requests db')"
      and o: "in_open_index r1" "in_open_index r2" "hr_order_number r1 = hr_order_number r2"
    from r(1) consider "r1 = row" | "r1 \<in> set (help_requests db)" unfolding rows by blast
    then show "hr_id r1 = hr_id r2"
    proof cases
      case 1
      from r(2) consider "r2 = row" | "r2 \<in> set (help_requests db)" unfolding rows by blast
      then show ?thesis
      proof cases
        case 1
        with \<open>r1 = row\<close> show ?thesis by simp
      next
        case 2
        from free [OF _ 2 o(2)] o(1,3) \<open>r1 = row\<close> show ?thesis by simp
      qed
    next
      case 2
      from r(2) consider "r2 = row" | "r2 \<in> set (help_requests db)" unfolding rows by blast
      then show ?thesis
      proof cases
        case 1
        from free [OF _ 2 o(1)] o(2,3) 1 show ?thesis by simp
      next
        case b: 2
        from invariant_open [OF inv 2 b o] show ?thesis .
      qed
    qed
  next
    fix r
    assume "r \<in> set (help_requests db')"
    then consider "r = row" | "r \<in> set (help_requests db)" unfolding rows by blast
    then show "hr_created_at r \<le> clock db'"
    proof cases
      case 1
      with t show ?thesis by (simp add: db')
    next
      case 2
      from invariant_clock [OF inv 2] show ?thesis by (simp add: db')
    qed
  next
    fix m
    assume "m \<in> set (chat_messages db')"
    then have "m \<in> set (chat_messages db)" by (simp add: db')
    from invariant_message [OF inv this]
    obtain r where r: "r \<in> set (help_requests db)" "hr_id r = cm_request_id m"
      "hr_created_at r \<le> cm_created_at m" by blast
    from r(1) have "r \<in> set (help_requests db')" by (simp add: rows)
    with r(2,3) show "\<exists>r \<in> set (help_requests db'). hr_id r = cm_request_id m
        \<and> hr_created_at r \<le> cm_created_at m"
      by (intro bexI [of _ r] conjI)
  qed
qed

lemma invariant_update:
  assumes inv: "store_invariant db"
    and upd: "update_help_request db i f = Inr db'"
    and keep: "\<And>r. hr_id (f r) = hr_id r \<and> hr_order_number (f r) = hr_order_number r
                 \<and> hr_created_at (f r) = hr_created_at r"
  shows "store_invariant db'"
proof -
  define g where "g = (\<lambda>r. if hr_id r = i then f r else r)"
  from upd have nconf: "\<not> list_ex (\<lambda>r. hr_id r = i \<and> in_open_index (f r)
                    \<and> list_ex (\<lambda>r'. hr_id r' \<noteq> i \<and> in_open_index r'
                                  \<and> hr_order_number r' = hr_order_number (f r))
                         (help_requests db))
           (help_requests db)"
    by (simp add: update_help_request_def split: if_splits)
  then have ok: "hr_order_number r' \<noteq> hr_order_number (f r)"
    if "r \<in> set (help_requests db)" "r' \<in> set (help_requests db)" "hr_id r = i"
      "in_open_index (f r)" "hr_id r' \<noteq> i" "in_open_index r'" for r r'
    using that unfolding list_ex_iff by blast
  from upd nconf have db': "db' = db\<lparr>help_requests := map g (help_requests db)\<rparr>"
    by (simp add: update_help_request_def g_def split: if_splits)
  have g: "hr_id (g r) = hr_id r" "hr_order_number (g r) = hr_order_number r"
    "hr_created_at (g r) = hr_created_at r" for r
    using keep [of r] by (simp_all add: g_def)
  have rows: "r' \<in> set (help_requests db') \<longleftrightarrow> (\<exists>r \<in> set (help_requests db). r' = g r)" for r'
    by (auto simp: db')
  show ?thesis
  proof (rule store_invariantI)
    have "map hr_id (help_requests db') = map hr_id (help_requests db)"
      by (simp add: db' g)
    then show "distinct (map hr_id (help_requests db'))"
      using invariant_distinct [OF inv] by simp
  next
    fix r1' r2'
    assume r: "r1' \<in> set (help_requests db')" "r2' \<in> set (help_requests db')"
      and o: "in_open_index r1'" "in_open_index r2'" "hr_order_number r1' = hr_order_number r2'"
    from r obtain r1 r2 where r1: "r1 \<in> set (help_requests db)" "r1' = g r1"
      and r2: "r2 \<in> set (help_requests db)" "r2' = g r2"
      unfolding rows by blast
    have oo: "hr_order_number r1 = hr_order_number r2" using o(3) r1(2) r2(2) g by simp
    show "hr_id r1' = hr_id r2'"
    proof (cases "hr_id r1 = i")
      case a: True
      show ?thesis
      proof (cases "hr_id r2 = i")
        case True
        with a show ?thesis using g r1(2) r2(2) by simp
      next
        case False
        have "in_open_index (f r1)" using o(1) r1(2) a by (simp add: g_def)
        moreover have "in_open_index r2" using o(2) r2(2) False by (simp add: g_def)
        moreover have "hr_order_number r2 = hr_order_number (f r1)" using oo keep [of r1] by simp
        ultimately show ?thesis using ok [OF r1(1) r2(1) a _ False] by blast
      qed
    next
      case a: False
      show ?thesis
      proof (cases "hr_id r2 = i")
        case True
        have "in_open_index (f r2)" using o(2) r2(2) True by (simp add: g_def)
        moreover have "in_open_index r1" using o(1) r1(2) a by (simp add: g_def)
        moreover have "hr_order_number r1 = hr_order_number (f r2)" using oo keep [of r2] by simp
        ultimately show ?thesis using ok [OF r2(1) r1(1) True _ a] by blast
      next
        case False
        have "in_open_index r1" using o(1) r1(2) a by (simp add: g_def)
        moreover have "in_open_index r2" using o(2) r2(2) False by (simp add: g_def)
        ultimately have "hr_id r1 = hr_id r2" using invariant_open [OF inv r1(1) r2(1)] oo by blast
        then show ?thesis using g r1(2) r2(2) by simp
      qed
    qed
  next
    fix r'
    assume "r' \<in> set (help_requests db')"
    then obtain r where r: "r \<in> set (help_requests db)" "r' = g r" unfolding rows by blast
    from invariant_clock [OF inv r(1)] show "hr_created_at r' \<le> clock db'"
      by (simp add: db' r(2) g)
  next
    fix m
    assume "m \<in> set (chat_messages db')"
    then have "m \<in> set (chat_messages db)" by (simp add: db')
    from invariant_message [OF inv this]
    obtain r where r: "r \<in> set (help_requests db)" "hr_id r = cm_request_id m"
      "hr_created_at r \<le> cm_created_at m" by blast
    have "g r \<in> set (help_requests db')" using r(1) unfolding rows by blast
    moreover have "hr_id (g r) = cm_request_id m \<and> hr_created_at (g r) \<le> cm_created_at m"
      using r g by simp
    ultimately show "\<exists>r \<in> set (help_requests db'). hr_id r = cm_request_id m
        \<and> hr_created_at r \<le> cm_created_at m"
      by blast
  qed
qed

lemma invariant_create:
  "store_invariant db \<Longrightarrow> create db new_id body = Inr (row, db') \<Longrightarrow> store_invariant db'"
proof -
  assume inv: "store_invariant db" and c: "create db new_id body = Inr (row, db')"
  from c have "insert_help_request db (new_row db new_id body) = Inr db'"
    by (auto simp: create_def split: sum.splits)
  moreover have "hr_created_at (new_row db new_id body) \<le> clock db" by (simp add: new_row_def)
  ultimately show ?thesis by (rule invariant_insert [OF inv])
qed

lemma invariant_repo_update:
  "store_invariant db \<Longrightarrow> update db i body processedBy = Inr (result, db') \<Longrightarrow> store_invariant db'"
proof -
  assume inv: "store_invariant db" and u: "update db i body processedBy = Inr (result, db')"
  show ?thesis
  proof (cases "ub_status body = None \<and> ub_admin_notes body = None \<and> ub_shopify_order_id body = None
         \<and> ub_shopify_shop body = None")
    case True
    with u have "db' = db" by (simp add: update_def)
    with inv show ?thesis by simp
  next
    case False
    with u have "update_help_request db i (set_fields (clock db) body processedBy) = Inr db'"
      by (auto simp: update_def split: sum.splits)
    with inv show ?thesis
      by (rule invariant_update) (simp add: set_fields_def Let_def)
  qed
qed

lemma invariant_createMessage:
  "store_invariant db \<Longrightarrow> createMessage db new_id data = Inr (message, db') \<Longrightarrow> store_invariant db'"
proof -
  assume inv: "store_invariant db" and c: "createMessage db new_id data = Inr (message, db')"
  from c have fk: "\<exists>r \<in> set (help_requests db). hr_id r = mc_request_id data"
    and db': "db' = db\<lparr>chat_messages := chat_messages db @ [message]\<rparr>"
    and msg: "cm_request_id message = mc_request_id data" "cm_created_at message = clock db"
    by (auto simp: createMessage_def Let_def list_ex_iff split: if_splits)
  from fk obtain r0 where r0: "r0 \<in> set (help_requests db)" "hr_id r0 = mc_request_id data"
    by blast
  show ?thesis
  proof (rule store_invariantI)
    show "distinct (map hr_id (help_requests db'))"
      using invariant_distinct [OF inv] by (simp add: db')
  next
    fix r1 r2
    assume "r1 \<in> set (help_requests db')" "r2 \<in> set (help_requests db')"
      "in_open_index r1" "in_open_index r2" "hr_order_number r1 = hr_order_number r2"
    then show "hr_id r1 = hr_id r2" using invariant_open [OF inv, of r1 r2] by (simp add: db')
  next
    fix r
    assume "r \<in> set (help_requests db')"
    then show "hr_created_at r \<le> clock db'" using invariant_clock [OF inv, of r] by (simp add: db')
  next
    fix m
    assume "m \<in> set (chat_messages db')"
    then consider "m = message" | "m \<in> set (chat_messages db)" by (auto simp: db')
    then show "\<exists>r \<in> set (help_requests db'). hr_id r = cm_request_id m
        \<and> hr_created_at r \<le> cm_created_at m"
    proof cases
      case 1
      have "hr_created_at r0 \<le> cm_created_at m"
        using invariant_clock [OF inv r0(1)] msg(2) 1 by simp
      with r0 msg(1) 1 show ?thesis by (auto simp: db')
    next
      case 2
      from invariant_message [OF inv 2] show ?thesis by (simp add: db')
    qed
  qed
qed

lemma reachable_invariant: "reachable db \<Longrightarrow> store_invariant db"
proof (induction rule: reachable.induct)
  case (initial t)
  show ?case by (rule invariant_initial)
next
  case (tick db t)
  then show ?case by (simp add: invariant_tick)
next
  case (created db new_id body row db')
  then show ?case by (blast intro: invariant_create)
next
  case (updated db id' ubody processedBy result db')
  then show ?case by (blast intro: invariant_repo_update)
next
  case (message_created db new_id data message db')
  then show ?case by (blast intro: invariant_createMessage)
qed

lemma filter_at_most_one:
  "distinct (map k xs) \<Longrightarrow> (\<forall>a \<in> set xs. \<forall>b \<in> set xs. P a \<and> P b \<longrightarrow> k a = k b)
     \<Longrightarrow> length (filter P xs) \<le> 1"
proof (induction xs)
  case Nil
  then show ?case by simp
next
  case (Cons x xs)
  show ?case
  proof (cases "P x")
    case True
    have "filter P xs = []"
    proof (rule ccontr)
      assume "filter P xs \<noteq> []"
      then obtain b where "b \<in> set (filter P xs)" by (cases "filter P xs") auto
      then have b: "b \<in> set xs" "P b" by simp_all
      have "x \<in> set (x # xs)" "b \<in> set (x # xs)" using b(1) by simp_all
      from Cons.prems(2) [rule_format, OF this] True b(2) have "k x = k b" by blast
      moreover from Cons.prems(1) have "k x \<notin> k ` set xs" by simp
      ultimately show False using b(1) by blast
    qed
    with True show ?thesis by simp
  next
    case False
    have d: "distinct (map k xs)" using Cons.prems(1) by simp
    have q: "\<forall>a \<in> set xs. \<forall>b \<in> set xs. P a \<and> P b \<longrightarrow> k a = k b"
    proof (intro ballI impI)
      fix a b
      assume ab: "a \<in> set xs" "b \<in> set xs" and pab: "P a \<and> P b"
      from ab have "a \<in> set (x # xs)" "b \<in> set (x # xs)" by simp_all
      from Cons.prems(2) [rule_format, OF this] pab show "k a = k b" by blast
    qed
    from Cons.IH [OF d q] False show ?thesis by simp
  qed
qed

subsection \<open>The example store is reachable\<close>

lemma example_create:
  "create \<lparr>help_requests = [], chat_messages = [], clock = 10\<rparr> ''r1'' example_body
     = Inr (example_request, example_store [] 10)"
  by (simp add: create_def insert_help_request_def new_row_def example_body_def
      example_request_def example_store_def in_open_index_def stored_order_number_def
      normalized_def strip_hash_def trim_def is_space_def trim_or_null_def)

lemma example_reachable_0: "reachable (example_store [] 10)"
  using reachable.created [OF reachable.initial example_create] .

lemma example_tick: "reachable (example_store ms t) \<Longrightarrow> t \<le> t' \<Longrightarrow> reachable (example_store ms t')"
  using reachable.tick [of "example_store ms t" t'] by (simp add: example_store_def)

lemma example_createMessage:
  "\<not> list_ex (\<lambda>m. cm_id m = i) ms \<Longrightarrow>
   createMessage (example_store ms t) i (example_data s sid)
     = Inr (example_message i s (or_null sid) t, example_store (ms @ [example_message i s (or_null sid) t]) t)"
  by (simp add: createMessage_def example_store_def example_data_def example_message_def
      example_request_def trim_or_null_def trim_def is_space_def or_null_def Let_def)

lemma example_reachable: "reachable (example_store example_thread 40)"
proof -
  have r1: "reachable (example_store [] 20)"
    by (rule example_tick [OF example_reachable_0]) simp
  have "createMessage (example_store [] 20) ''m1'' (example_data Customer None)
     = Inr (example_message ''m1'' Customer None 20, example_store [example_message ''m1'' Customer None 20] 20)"
    using example_createMessage [of "''m1''" "[]" 20 Customer None] by (simp add: or_null_def)
  from reachable.message_created [OF r1 this]
  have "reachable (example_store [example_message ''m1'' Customer None 20] 30)"
    by (rule example_tick) simp
  moreover have "createMessage (example_store [example_message ''m1'' Customer None 20] 30) ''m2''
        (example_data Admin (Some ''admin1''))
     = Inr (example_message ''m2'' Admin (Some ''admin1'') 30,
            example_store [example_message ''m1'' Customer None 20,
                           example_message ''m2'' Admin (Some ''admin1'') 30] 30)"
    using example_createMessage [of "''m2''" "[example_message ''m1'' Customer None 20]" 30 Admin "Some ''admin1''"]
    by (simp add: or_null_def example_message_def)
  ultimately have "reachable (example_store [example_message ''m1'' Customer None 20,
                           example_message ''m2'' Admin (Some ''admin1'') 30] 30)"
    by (rule reachable.message_created)
  then have "reachable (example_store [example_message ''m1'' Customer None 20,
                           example_message ''m2'' Admin (Some ''admin1'') 30] 40)"
    by (rule example_tick) simp
  moreover have "createMessage (example_store [example_message ''m1'' Customer None 20,
                           example_message ''m2'' Admin (Some ''admin1'') 30] 40) ''m3''
        (example_data Customer None)
     = Inr (example_message ''m3'' Customer None 40, example_store example_thread 40)"
    using example_createMessage [of "''m3''" "[example_message ''m1'' Customer None 20,
                           example_message ''m2'' Admin (Some ''admin1'') 30]" 40 Customer None]
    by (simp add: or_null_def example_message_def example_thread_def)
  ultimately show ?thesis by (rule reachable.message_created)
qed

lemma example_getById: "getById (example_store ms t) ''r1'' = Some example_request"
  by (simp add: getById_def example_store_def example_request_def)

subsection \<open>One open request per order\<close>

text \<open>
  C2. In every reachable state of the store, for each order number there is at most one
  help request whose status is pending, in progress or approved. The database enforces
  this, not only the check in the create route: the states are reached through the
  repository's \<^verbatim>\<open>create\<close> and \<^verbatim>\<open>update\<close> alone, with no check before them, and whenever a
  request with an open status has the order number that \<^verbatim>\<open>create\<close> would store, the insert
  is refused with a unique violation.
\<close>

theorem one_open_request_per_order:
  assumes "reachable db"
  shows "length (filter (\<lambda>r. hr_order_number r = orderNumber \<and> hr_status r \<in> set OPEN_STATUSES)
                   (help_requests db)) \<le> 1
       \<and> ((\<exists>r \<in> set (help_requests db). hr_status r \<in> set OPEN_STATUSES
              \<and> hr_order_number r = stored_order_number (cb_order_number body)) \<longrightarrow>
            create db new_id body = Inl Unique_violation)"
proof
  note inv = reachable_invariant [OF assms]
  have d: "distinct (map hr_id (help_requests db))"
    by (rule invariant_distinct [OF inv])
  have "\<forall>a \<in> set (help_requests db). \<forall>b \<in> set (help_requests db).
      (hr_order_number a = orderNumber \<and> hr_status a \<in> set OPEN_STATUSES)
      \<and> (hr_order_number b = orderNumber \<and> hr_status b \<in> set OPEN_STATUSES) \<longrightarrow> hr_id a = hr_id b"
  proof (intro ballI impI)
    fix a b
    assume ab: "a \<in> set (help_requests db)" "b \<in> set (help_requests db)"
      and o: "(hr_order_number a = orderNumber \<and> hr_status a \<in> set OPEN_STATUSES)
      \<and> (hr_order_number b = orderNumber \<and> hr_status b \<in> set OPEN_STATUSES)"
    from o have "in_open_index a" "in_open_index b" "hr_order_number a = hr_order_number b"
      by (simp_all add: open_statuses_index)
    from invariant_open [OF inv ab this] show "hr_id a = hr_id b" .
  qed
  with d show "length (filter (\<lambda>r. hr_order_number r = orderNumber \<and> hr_status r \<in> set OPEN_STATUSES)
                   (help_requests db)) \<le> 1"
    by (rule filter_at_most_one)
next
  show "(\<exists>r \<in> set (help_requests db). hr_status r \<in> set OPEN_STATUSES
              \<and> hr_order_number r = stored_order_number (cb_order_number body)) \<longrightarrow>
            create db new_id body = Inl Unique_violation"
  proof
    assume "\<exists>r \<in> set (help_requests db). hr_status r \<in> set OPEN_STATUSES
              \<and> hr_order_number r = stored_order_number (cb_order_number body)"
    then have "list_ex (\<lambda>r. in_open_index r \<and> hr_order_number r = hr_order_number (new_row db new_id body))
                   (help_requests db)"
      by (auto simp: list_ex_iff open_statuses_index new_row_def)
    moreover have "in_open_index (new_row db new_id body)"
      by (simp add: in_open_index_def new_row_def)
    ultimately show "create db new_id body = Inl Unique_violation"
      by (simp add: create_def insert_help_request_def)
  qed
qed

text \<open>
  With the example request open for order 1001, a second request for \<^verbatim>\<open>" 1001 "\<close> is refused
  by the database.
\<close>

theorem one_open_request_per_order_witness:
  "reachable (example_store [] 10)
   \<and> length (filter (\<lambda>r. hr_order_number r = ''1001'' \<and> hr_status r \<in> set OPEN_STATUSES)
                (help_requests (example_store [] 10))) \<le> 1
   \<and> create (example_store [] 10) ''r2'' (example_body\<lparr>cb_order_number := '' 1001 ''\<rparr>)
       = Inl Unique_violation"
proof -
  have e: "\<exists>r \<in> set (help_requests (example_store [] 10)). hr_status r \<in> set OPEN_STATUSES
      \<and> hr_order_number r = stored_order_number (cb_order_number (example_body\<lparr>cb_order_number := '' 1001 ''\<rparr>))"
    by (simp add: example_store_def example_request_def OPEN_STATUSES_def stored_order_number_def
        normalized_def strip_hash_def trim_def is_space_def)
  show ?thesis
    using example_reachable_0 e
      one_open_request_per_order [OF example_reachable_0, of "''1001''"
        "example_body\<lparr>cb_order_number := '' 1001 ''\<rparr>" "''r2''"]
    by blast
qed

section \<open>Properties of the chat\<close>

subsection \<open>Unread messages\<close>

lemma sql_max_Max:
  assumes "ts \<noteq> []"
  shows "sql_max ts = Some (Max (set ts))"
proof (cases ts)
  case Nil
  with assms show ?thesis by simp
next
  case (Cons t rest)
  have "Max (set (t # rest)) = fold max rest t" by (rule Max.set_eq_fold)
  then show ?thesis unfolding Cons by (simp add: sql_max_def)
qed

lemma getById_Some:
  "getById db i = Some request \<Longrightarrow> request \<in> set (help_requests db) \<and> hr_id request = i"
  unfolding getById_def find_Some_iff by (metis nth_mem)

lemma distinct_key_eq:
  "distinct (map k xs) \<Longrightarrow> a \<in> set xs \<Longrightarrow> b \<in> set xs \<Longrightarrow> k a = k b \<Longrightarrow> a = b"
  by (meson distinct_map inj_onD)

lemma threshold_later_of:
  assumes le: "\<forall>t \<in> set ts. t0 \<le> t"
  shows "coalesce (sql_max ts) (Some t0) = Some (Max (insert t0 (set ts)))"
proof (cases ts)
  case Nil
  then show ?thesis by (simp add: sql_max_def coalesce_def)
next
  case (Cons t rest)
  then have ne: "ts \<noteq> []" by simp
  have "t0 \<le> Max (set ts)"
  proof -
    have "t \<in> set ts" using Cons by simp
    then have "t \<le> Max (set ts)" by simp
    moreover have "t0 \<le> t" using le \<open>t \<in> set ts\<close> by blast
    ultimately show ?thesis by (rule order_trans [rotated])
  qed
  moreover have "Max (insert t0 (set ts)) = max t0 (Max (set ts))"
    using ne by (simp add: Max_insert)
  ultimately have "Max (insert t0 (set ts)) = Max (set ts)" by (simp add: max_def)
  then show ?thesis using sql_max_Max [OF ne] by (simp add: coalesce_def)
qed

lemma unread_count_thread:
  assumes thread: "filter (\<lambda>m. cm_request_id m = requestId) (chat_messages db) = [m2, m1, m3]"
    and senders: "cm_sender m1 = Admin" "cm_sender m2 = Customer" "cm_sender m3 = Customer"
    and times: "cm_created_at m2 < cm_created_at m1" "cm_created_at m1 < cm_created_at m3"
  shows "getUnreadCountForAdmin db requestId = 1"
proof -
  have split: "filter (\<lambda>m. cm_request_id m = requestId \<and> P m) (chat_messages db)
      = filter P [m2, m1, m3]" for P
    unfolding thread [symmetric] by (simp add: conj_commute)
  have admin: "filter (\<lambda>m. cm_request_id m = requestId \<and> cm_sender m = Admin) (chat_messages db) = [m1]"
    unfolding split using senders by simp
  have threshold: "coalesce (sql_max (map cm_created_at [m1])) t = Some (cm_created_at m1)" for t
    by (simp add: sql_max_def coalesce_def)
  have "filter (\<lambda>m. cm_request_id m = requestId \<and> cm_sender m = Customer
            \<and> cm_created_at m > cm_created_at m1) (chat_messages db) = [m3]"
    using split [of "\<lambda>m. cm_sender m = Customer \<and> cm_created_at m > cm_created_at m1"]
      senders times by simp
  then show ?thesis
    unfolding getUnreadCountForAdmin_def Let_def admin threshold by simp
qed

text \<open>
  C5. In every reachable state, for an existing request, the unread count for the admin is
  the number of messages of that request sent by the customer and created strictly after
  the later of the request's creation time and the creation time of the most recent
  message sent by an admin. (The query takes the time of the last admin message when there
  is one and the request's creation time otherwise; no message is older than its request,
  so that is the later of the two.) In particular, in any state, when the thread of a
  request is a customer message at \<open>T2\<close>, an admin message at \<open>T1\<close> and a customer message at
  \<open>T3\<close> with \<open>T2 < T1 < T3\<close>, the count is 1.
\<close>

theorem unread_count_for_admin:
  "(reachable db \<and> getById db requestId = Some request \<longrightarrow>
      getUnreadCountForAdmin db requestId
       = length (filter (\<lambda>m. cm_request_id m = requestId \<and> cm_sender m = Customer
                    \<and> cm_created_at m
                        > Max (insert (hr_created_at request)
                             (cm_created_at ` {a \<in> set (chat_messages db).
                                cm_request_id a = requestId \<and> cm_sender a = Admin})))
                  (chat_messages db)))
   \<and> (filter (\<lambda>m. cm_request_id m = requestId) (chat_messages db) = [m2, m1, m3]
        \<and> cm_sender m1 = Admin \<and> cm_sender m2 = Customer \<and> cm_sender m3 = Customer
        \<and> cm_created_at m2 < cm_created_at m1 \<and> cm_created_at m1 < cm_created_at m3 \<longrightarrow>
      getUnreadCountForAdmin db requestId = 1)"
proof (intro conjI impI)
  assume a: "reachable db \<and> getById db requestId = Some request"
  note reach = a [THEN conjunct1] and req = a [THEN conjunct2]
  note inv = reachable_invariant [OF reach]
  let ?admin = "filter (\<lambda>m. cm_request_id m = requestId \<and> cm_sender m = Admin) (chat_messages db)"
  let ?ts = "map cm_created_at ?admin"
  from getById_Some [OF req] have r: "request \<in> set (help_requests db)" "hr_id request = requestId"
    by simp_all
  have le: "\<forall>t \<in> set ?ts. hr_created_at request \<le> t"
  proof
    fix t
    assume "t \<in> set ?ts"
    then obtain a where a: "a \<in> set (chat_messages db)" "cm_request_id a = requestId"
      "t = cm_created_at a" by auto
    from invariant_message [OF inv a(1)]
    obtain r' where r': "r' \<in> set (help_requests db)" "hr_id r' = cm_request_id a"
      "hr_created_at r' \<le> cm_created_at a" by blast
    have "hr_id r' = hr_id request" using r'(2) a(2) r(2) by simp
    from distinct_key_eq [OF invariant_distinct [OF inv] r'(1) r(1) this] r'(3) a(3)
    show "hr_created_at request \<le> t" by simp
  qed
  have s: "set ?ts = cm_created_at ` {a \<in> set (chat_messages db).
                                cm_request_id a = requestId \<and> cm_sender a = Admin}"
    by auto
  have f: "find (\<lambda>r. hr_id r = requestId) (help_requests db) = Some request"
    using req by (simp add: getById_def)
  have "coalesce (sql_max ?ts) (map_option hr_created_at (find (\<lambda>r. hr_id r = requestId) (help_requests db)))
      = Some (Max (insert (hr_created_at request) (set ?ts)))"
    unfolding f using threshold_later_of [OF le] by simp
  then show "getUnreadCountForAdmin db requestId
       = length (filter (\<lambda>m. cm_request_id m = requestId \<and> cm_sender m = Customer
                    \<and> cm_created_at m
                        > Max (insert (hr_created_at request)
                             (cm_created_at ` {a \<in> set (chat_messages db).
                                cm_request_id a = requestId \<and> cm_sender a = Admin})))
                  (chat_messages db))"
    unfolding getUnreadCountForAdmin_def Let_def s by simp
next
  assume "filter (\<lambda>m. cm_request_id m = requestId) (chat_messages db) = [m2, m1, m3]
        \<and> cm_sender m1 = Admin \<and> cm_sender m2 = Customer \<and> cm_sender m3 = Customer
        \<and> cm_created_at m2 < cm_created_at m1 \<and> cm_created_at m1 < cm_created_at m3"
  then show "getUnreadCountForAdmin db requestId = 1"
    by (intro unread_count_thread [of requestId db m2 m1 m3]) simp_all
qed

text \<open>
  The request created at 10, a customer message at 20, an admin message at 30 and a
  customer message at 40: the count is 1.
\<close>

theorem unread_count_for_admin_witness:
  "reachable (example_store example_thread 40)
   \<and> getById (example_store example_thread 40) ''r1'' = Some example_request
   \<and> filter (\<lambda>m. cm_request_id m = ''r1'') (chat_messages (example_store example_thread 40))
       = [example_message ''m1'' Customer None 20, example_message ''m2'' Admin (Some ''admin1'') 30,
          example_message ''m3'' Customer None 40]
   \<and> getUnreadCountForAdmin (example_store example_thread 40) ''r1'' = 1
   \<and> length (filter (\<lambda>m. cm_request_id m = ''r1'' \<and> cm_sender m = Customer
                    \<and> cm_created_at m
                        > Max (insert (hr_created_at example_request)
                             (cm_created_at ` {a \<in> set (chat_messages (example_store example_thread 40)).
                                cm_request_id a = ''r1'' \<and> cm_sender a = Admin})))
                  (chat_messages (example_store example_thread 40))) = 1"
proof -
  note t = unread_count_for_admin [of "example_store example_thread 40" "''r1''" example_request
      "example_message ''m1'' Customer None 20" "example_message ''m2'' Admin (Some ''admin1'') 30"
      "example_message ''m3'' Customer None 40"]
  note req = example_getById [of example_thread 40]
  have f: "filter (\<lambda>m. cm_request_id m = ''r1'') (chat_messages (example_store example_thread 40))
       = [example_message ''m1'' Customer None 20, example_message ''m2'' Admin (Some ''admin1'') 30,
          example_message ''m3'' Customer None 40]"
    by (simp add: example_store_def example_thread_def example_message_def)
  have "filter (\<lambda>m. cm_request_id m = ''r1'') (chat_messages (example_store example_thread 40))
          = [example_message ''m1'' Customer None 20, example_message ''m2'' Admin (Some ''admin1'') 30,
             example_message ''m3'' Customer None 40]
        \<and> cm_sender (example_message ''m2'' Admin (Some ''admin1'') 30) = Admin
        \<and> cm_sender (example_message ''m1'' Customer None 20) = Customer
        \<and> cm_sender (example_message ''m3'' Customer None 40) = Customer
        \<and> cm_created_at (example_message ''m1'' Customer None 20)
            < cm_created_at (example_message ''m2'' Admin (Some ''admin1'') 30)
        \<and> cm_created_at (example_message ''m2'' Admin (Some ''admin1'') 30)
            < cm_created_at (example_message ''m3'' Customer None 40)"
    using f by (simp add: example_message_def)
  with t [THEN conjunct2] have c: "getUnreadCountForAdmin (example_store example_thread 40) ''r1'' = 1"
    by (rule mp)
  from t [THEN conjunct1] example_reachable req
  have "getUnreadCountForAdmin (example_store example_thread 40) ''r1''
       = length (filter (\<lambda>m. cm_request_id m = ''r1'' \<and> cm_sender m = Customer
                    \<and> cm_created_at m
                        > Max (insert (hr_created_at example_request)
                             (cm_created_at ` {a \<in> set (chat_messages (example_store example_thread 40)).
                                cm_request_id a = ''r1'' \<and> cm_sender a = Admin})))
                  (chat_messages (example_store example_thread 40)))"
    by blast
  with c have l: "length (filter (\<lambda>m. cm_request_id m = ''r1'' \<and> cm_sender m = Customer
                    \<and> cm_created_at m
                        > Max (insert (hr_created_at example_request)
                             (cm_created_at ` {a \<in> set (chat_messages (example_store example_thread 40)).
                                cm_request_id a = ''r1'' \<and> cm_sender a = Admin})))
                  (chat_messages (example_store example_thread 40))) = 1"
    by simp
  show ?thesis by (intro conjI example_reachable req f c l)
qed

subsection \<open>Who may post and read\<close>

lemma createMessage_ok:
  assumes "getById db requestId = Some request"
    and "\<not> list_ex (\<lambda>m. cm_id m = new_id) (chat_messages db)"
    and "mc_request_id data = requestId"
  shows "\<exists>m db'. createMessage db new_id data = Inr (m, db')
           \<and> cm_sender m = mc_sender data \<and> cm_sender_id m = or_null (mc_sender_id data)
           \<and> cm_request_id m = requestId
           \<and> chat_messages db' = chat_messages db @ [m]"
proof -
  from assms(1) have "\<exists>r \<in> set (help_requests db). hr_id r = requestId"
    by (auto simp: getById_def find_Some_iff)
  then have "list_ex (\<lambda>r. hr_id r = mc_request_id data) (help_requests db)"
    using assms(3) by (simp add: list_ex_iff)
  with assms(2,3) show ?thesis
    by (simp add: createMessage_def Let_def)
qed

lemma post_message_created:
  assumes req: "getById db requestId = Some request"
    and fresh: "\<not> list_ex (\<lambda>m. cm_id m = new_id) (chat_messages db)"
    and content: "trim_or_null (rq_body rq) \<noteq> None \<or> or_null (rq_attachment_blob_url rq) \<noteq> None"
    and snd: "determine_sender (optional_auth verify rq) (rq_query_email rq) request = Some (s, sid)"
  shows "\<exists>m db'. post_message verify db new_id requestId rq = (Created m, db')
            \<and> cm_sender m = s \<and> cm_sender_id m = or_null sid
            \<and> chat_messages db' = chat_messages db @ [m]"
proof -
  let ?data = "\<lparr>mc_request_id = requestId, mc_sender = s, mc_sender_id = sid,
                  mc_body = trim_or_null (rq_body rq),
                  mc_attachment_blob_url = or_null (rq_attachment_blob_url rq),
                  mc_attachment_blob_path = or_null (rq_attachment_blob_path rq),
                  mc_attachment_file_name = or_null (rq_attachment_file_name rq),
                  mc_attachment_content_type = or_null (rq_attachment_content_type rq)\<rparr>"
  from createMessage_ok [OF req fresh, of ?data]
  obtain m db' where m: "createMessage db new_id ?data = Inr (m, db')"
    "cm_sender m = s" "cm_sender_id m = or_null sid" "chat_messages db' = chat_messages db @ [m]"
    by auto
  have "post_message verify db new_id requestId rq = (Created m, db')"
    using req snd content m(1) by (auto simp: post_message_def)
  with m show ?thesis by blast
qed

text \<open>
  C8. Sender of a posted message, for an existing request. With a valid admin access
  credential (\<^verbatim>\<open>req.auth\<close> is set) a message with a body or an attachment is created with sender
  \<^verbatim>\<open>admin\<close> and the admin's id, whatever the \<^verbatim>\<open>email\<close> parameter is; without one, and with an
  \<^verbatim>\<open>email\<close> parameter equal to the request's customer email up to case, it is created with
  sender \<^verbatim>\<open>customer\<close> and no sender id; without one, and with no \<^verbatim>\<open>email\<close> parameter or one
  that does not match, the answer is 401 Unauthorized and nothing is stored.
\<close>

theorem post_message_sender:
  assumes req: "getById db requestId = Some request"
  shows "(optional_auth verify rq = Some u
            \<and> \<not> list_ex (\<lambda>m. cm_id m = new_id) (chat_messages db)
            \<and> (trim_or_null (rq_body rq) \<noteq> None \<or> or_null (rq_attachment_blob_url rq) \<noteq> None) \<longrightarrow>
          (\<exists>m db'. post_message verify db new_id requestId rq = (Created m, db')
             \<and> cm_sender m = Admin \<and> cm_sender_id m = or_null (Some (ap_userId u))
             \<and> chat_messages db' = chat_messages db @ [m]))
       \<and> (optional_auth verify rq = None \<and> rq_query_email rq = Some e \<and> e \<noteq> []
            \<and> toLowerCase e = toLowerCase (hr_customer_email request)
            \<and> \<not> list_ex (\<lambda>m. cm_id m = new_id) (chat_messages db)
            \<and> (trim_or_null (rq_body rq) \<noteq> None \<or> or_null (rq_attachment_blob_url rq) \<noteq> None) \<longrightarrow>
          (\<exists>m db'. post_message verify db new_id requestId rq = (Created m, db')
             \<and> cm_sender m = Customer \<and> cm_sender_id m = None
             \<and> chat_messages db' = chat_messages db @ [m]))
       \<and> (optional_auth verify rq = None
            \<and> (rq_query_email rq = None \<or> rq_query_email rq = Some []
                \<or> (\<exists>e'. rq_query_email rq = Some e'
                      \<and> toLowerCase e' \<noteq> toLowerCase (hr_customer_email request))) \<longrightarrow>
          post_message verify db new_id requestId rq
            = (Fail 401 ''Unauthorized: provide email query param or admin auth'', db))"
proof (intro conjI impI)
  assume a: "optional_auth verify rq = Some u
      \<and> \<not> list_ex (\<lambda>m. cm_id m = new_id) (chat_messages db)
      \<and> (trim_or_null (rq_body rq) \<noteq> None \<or> or_null (rq_attachment_blob_url rq) \<noteq> None)"
  then have "determine_sender (optional_auth verify rq) (rq_query_email rq) request
      = Some (Admin, Some (ap_userId u))"
    by (simp add: determine_sender_def)
  from post_message_created [OF req _ _ this] a
  show "\<exists>m db'. post_message verify db new_id requestId rq = (Created m, db')
             \<and> cm_sender m = Admin \<and> cm_sender_id m = or_null (Some (ap_userId u))
             \<and> chat_messages db' = chat_messages db @ [m]"
    by blast
next
  assume a: "optional_auth verify rq = None \<and> rq_query_email rq = Some e \<and> e \<noteq> []
      \<and> toLowerCase e = toLowerCase (hr_customer_email request)
      \<and> \<not> list_ex (\<lambda>m. cm_id m = new_id) (chat_messages db)
      \<and> (trim_or_null (rq_body rq) \<noteq> None \<or> or_null (rq_attachment_blob_url rq) \<noteq> None)"
  then have "determine_sender (optional_auth verify rq) (rq_query_email rq) request
      = Some (Customer, None)"
    by (simp add: determine_sender_def or_null_def)
  from post_message_created [OF req _ _ this] a
  have "\<exists>m db'. post_message verify db new_id requestId rq = (Created m, db')
             \<and> cm_sender m = Customer \<and> cm_sender_id m = or_null None
             \<and> chat_messages db' = chat_messages db @ [m]"
    by blast
  then show "\<exists>m db'. post_message verify db new_id requestId rq = (Created m, db')
             \<and> cm_sender m = Customer \<and> cm_sender_id m = None
             \<and> chat_messages db' = chat_messages db @ [m]"
    by (simp add: or_null_def)
next
  assume a: "optional_auth verify rq = None
      \<and> (rq_query_email rq = None \<or> rq_query_email rq = Some []
          \<or> (\<exists>e'. rq_query_email rq = Some e'
                \<and> toLowerCase e' \<noteq> toLowerCase (hr_customer_email request)))"
  then have "determine_sender (optional_auth verify rq) (rq_query_email rq) request = None"
    by (auto simp: determine_sender_def or_null_def)
  then show "post_message verify db new_id requestId rq
            = (Fail 401 ''Unauthorized: provide email query param or admin auth'', db)"
    using req by (simp add: post_message_def)
qed

text \<open>
  C10. Reading the messages of an existing request with an \<^verbatim>\<open>email\<close> parameter that does
  not match the request's customer email is answered 403 Forbidden, whatever credential
  comes with it, a valid admin access credential included; a post with a valid admin
  access credential and the same \<^verbatim>\<open>email\<close> parameter is accepted and attributed to the
  admin.
\<close>

theorem get_messages_mismatched_email:
  assumes req: "getById db requestId = Some request"
    and email: "rq_query_email rq = Some e" "e \<noteq> []"
      "toLowerCase e \<noteq> toLowerCase (hr_customer_email request)"
  shows "get_messages verify db requestId rq = Fail 403 ''Forbidden: email does not match request''
       \<and> (optional_auth verify rq' = Some u \<and> rq_query_email rq' = Some e
            \<and> \<not> list_ex (\<lambda>m. cm_id m = new_id) (chat_messages db)
            \<and> (trim_or_null (rq_body rq') \<noteq> None \<or> or_null (rq_attachment_blob_url rq') \<noteq> None) \<longrightarrow>
          (\<exists>m db'. post_message verify db new_id requestId rq' = (Created m, db')
             \<and> cm_sender m = Admin))"
proof (intro conjI impI)
  show "get_messages verify db requestId rq = Fail 403 ''Forbidden: email does not match request''"
    using req email by (simp add: get_messages_def or_null_def Let_def)
next
  assume a: "optional_auth verify rq' = Some u \<and> rq_query_email rq' = Some e
      \<and> \<not> list_ex (\<lambda>m. cm_id m = new_id) (chat_messages db)
      \<and> (trim_or_null (rq_body rq') \<noteq> None \<or> or_null (rq_attachment_blob_url rq') \<noteq> None)"
  then have "determine_sender (optional_auth verify rq') (rq_query_email rq') request
      = Some (Admin, Some (ap_userId u))"
    by (simp add: determine_sender_def)
  from post_message_created [OF req _ _ this] a
  show "\<exists>m db'. post_message verify db new_id requestId rq' = (Created m, db') \<and> cm_sender m = Admin"
    by blast
qed

subsection \<open>Examples\<close>

lemma example_auth:
  "optional_auth example_verify (example_chat_request method (Some ''Bearer good'') email)
     = Some \<lparr>ap_userId = ''admin1'', ap_email = ''admin@shop.com''\<rparr>"
  by (simp add: optional_auth_def example_verify_def example_chat_request_def or_null_def)

lemma example_no_auth:
  "optional_auth example_verify (example_chat_request method None email) = None"
  by (simp add: optional_auth_def example_chat_request_def or_null_def)

lemma example_content:
  "trim_or_null (rq_body (example_chat_request method header email)) \<noteq> None
   \<or> or_null (rq_attachment_blob_url (example_chat_request method header email)) \<noteq> None"
  by (simp add: example_chat_request_def trim_or_null_def trim_def is_space_def)

lemma example_fresh: "\<not> list_ex (\<lambda>m. cm_id m = ''m4'') (chat_messages (example_store example_thread 40))"
  by (simp add: example_store_def example_thread_def example_message_def)

text \<open>
  Posts to the example thread: with the admin's token and a foreign email, with the
  customer's email in another case, and with a foreign email alone.
\<close>

theorem post_message_sender_witness:
  "getById (example_store example_thread 40) ''r1'' = Some example_request
   \<and> (\<exists>m db'. post_message example_verify (example_store example_thread 40) ''m4'' ''r1''
                 (example_chat_request POST (Some ''Bearer good'') (Some ''someone@else.com''))
               = (Created m, db')
             \<and> cm_sender m = Admin \<and> cm_sender_id m = Some ''admin1''
             \<and> chat_messages db' = chat_messages (example_store example_thread 40) @ [m])
   \<and> (\<exists>m db'. post_message example_verify (example_store example_thread 40) ''m4'' ''r1''
                 (example_chat_request POST None (Some ''A@B.com''))
               = (Created m, db')
             \<and> cm_sender m = Customer \<and> cm_sender_id m = None
             \<and> chat_messages db' = chat_messages (example_store example_thread 40) @ [m])
   \<and> post_message example_verify (example_store example_thread 40) ''m4'' ''r1''
         (example_chat_request POST None (Some ''someone@else.com''))
       = (Fail 401 ''Unauthorized: provide email query param or admin auth'',
          example_store example_thread 40)"
proof -
  note req = example_getById [of example_thread 40]
  have lower: "toLowerCase ''A@B.com'' = toLowerCase (hr_customer_email example_request)"
    by (simp add: toLowerCase_def lower_char_def example_request_def)
  have other: "toLowerCase ''someone@else.com'' \<noteq> toLowerCase (hr_customer_email example_request)"
    by (simp add: toLowerCase_def lower_char_def example_request_def)
  have e1: "rq_query_email (example_chat_request POST None (Some ''A@B.com'')) = Some ''A@B.com''"
    and e2: "rq_query_email (example_chat_request POST None (Some ''someone@else.com''))
        = Some ''someone@else.com''"
    by (simp_all add: example_chat_request_def)
  have ne: "''A@B.com'' \<noteq> []" by simp
  note admin = post_message_sender [OF req, of example_verify
        "example_chat_request POST (Some ''Bearer good'') (Some ''someone@else.com'')"
        "\<lparr>ap_userId = ''admin1'', ap_email = ''admin@shop.com''\<rparr>" "''m4''"]
  have "optional_auth example_verify
          (example_chat_request POST (Some ''Bearer good'') (Some ''someone@else.com''))
        = Some \<lparr>ap_userId = ''admin1'', ap_email = ''admin@shop.com''\<rparr>
      \<and> \<not> list_ex (\<lambda>m. cm_id m = ''m4'') (chat_messages (example_store example_thread 40))
      \<and> (trim_or_null (rq_body (example_chat_request POST (Some ''Bearer good'') (Some ''someone@else.com''))) \<noteq> None
          \<or> or_null (rq_attachment_blob_url
                (example_chat_request POST (Some ''Bearer good'') (Some ''someone@else.com''))) \<noteq> None)"
    by (intro conjI example_auth example_fresh example_content)
  with admin [THEN conjunct1]
  have a: "\<exists>m db'. post_message example_verify (example_store example_thread 40) ''m4'' ''r1''
                 (example_chat_request POST (Some ''Bearer good'') (Some ''someone@else.com''))
               = (Created m, db')
             \<and> cm_sender m = Admin \<and> cm_sender_id m = or_null (Some (ap_userId \<lparr>ap_userId = ''admin1'', ap_email = ''admin@shop.com''\<rparr>))
             \<and> chat_messages db' = chat_messages (example_store example_thread 40) @ [m]"
    by (rule mp)
  note customer = post_message_sender [OF req, of example_verify
        "example_chat_request POST None (Some ''A@B.com'')" _ "''m4''" "''A@B.com''"]
  have "optional_auth example_verify (example_chat_request POST None (Some ''A@B.com'')) = None
      \<and> rq_query_email (example_chat_request POST None (Some ''A@B.com'')) = Some ''A@B.com''
      \<and> ''A@B.com'' \<noteq> []
      \<and> toLowerCase ''A@B.com'' = toLowerCase (hr_customer_email example_request)
      \<and> \<not> list_ex (\<lambda>m. cm_id m = ''m4'') (chat_messages (example_store example_thread 40))
      \<and> (trim_or_null (rq_body (example_chat_request POST None (Some ''A@B.com''))) \<noteq> None
          \<or> or_null (rq_attachment_blob_url (example_chat_request POST None (Some ''A@B.com''))) \<noteq> None)"
    by (intro conjI example_no_auth e1 ne lower example_fresh example_content)
  with customer [THEN conjunct2, THEN conjunct1]
  have b: "\<exists>m db'. post_message example_verify (example_store example_thread 40) ''m4'' ''r1''
                 (example_chat_request POST None (Some ''A@B.com''))
               = (Created m, db')
             \<and> cm_sender m = Customer \<and> cm_sender_id m = None
             \<and> chat_messages db' = chat_messages (example_store example_thread 40) @ [m]"
    by (rule mp)
  note stranger = post_message_sender [OF req, of example_verify
        "example_chat_request POST None (Some ''someone@else.com'')" _ "''m4''"]
  have "\<exists>e'. rq_query_email (example_chat_request POST None (Some ''someone@else.com'')) = Some e'
          \<and> toLowerCase e' \<noteq> toLowerCase (hr_customer_email example_request)"
    using e2 other by (intro exI [of _ "''someone@else.com''"] conjI)
  then have "optional_auth example_verify (example_chat_request POST None (Some ''someone@else.com'')) = None
      \<and> (rq_query_email (example_chat_request POST None (Some ''someone@else.com'')) = None
          \<or> rq_query_email (example_chat_request POST None (Some ''someone@else.com'')) = Some []
          \<or> (\<exists>e'. rq_query_email (example_chat_request POST None (Some ''someone@else.com'')) = Some e'
                \<and> toLowerCase e' \<noteq> toLowerCase (hr_customer_email example_request)))"
    by (intro conjI example_no_auth disjI2)
  with stranger [THEN conjunct2, THEN conjunct2]
  have c: "post_message example_verify (example_store example_thread 40) ''m4'' ''r1''
         (example_chat_request POST None (Some ''someone@else.com''))
       = (Fail 401 ''Unauthorized: provide email query param or admin auth'',
          example_store example_thread 40)"
    by (rule mp)
  from a have a': "\<exists>m db'. post_message example_verify (example_store example_thread 40) ''m4'' ''r1''
                 (example_chat_request POST (Some ''Bearer good'') (Some ''someone@else.com''))
               = (Created m, db')
             \<and> cm_sender m = Admin \<and> cm_sender_id m = Some ''admin1''
             \<and> chat_messages db' = chat_messages (example_store example_thread 40) @ [m]"
    by (simp add: or_null_def)
  show ?thesis by (intro conjI req a' b c)
qed

text \<open>
  A read with the admin's token and a foreign email is refused with 403; the post with the
  same token and email is attributed to the admin.
\<close>

theorem get_messages_mismatched_email_witness:
  "getById (example_store example_thread 40) ''r1'' = Some example_request
   \<and> optional_auth example_verify (example_chat_request GET (Some ''Bearer good'') (Some ''someone@else.com''))
       = Some \<lparr>ap_userId = ''admin1'', ap_email = ''admin@shop.com''\<rparr>
   \<and> get_messages example_verify (example_store example_thread 40) ''r1''
         (example_chat_request GET (Some ''Bearer good'') (Some ''someone@else.com''))
       = Fail 403 ''Forbidden: email does not match request''
   \<and> (\<exists>m db'. post_message example_verify (example_store example_thread 40) ''m4'' ''r1''
                 (example_chat_request POST (Some ''Bearer good'') (Some ''someone@else.com''))
               = (Created m, db')
             \<and> cm_sender m = Admin)"
proof -
  note req = example_getById [of example_thread 40]
  have other: "toLowerCase ''someone@else.com'' \<noteq> toLowerCase (hr_customer_email example_request)"
    by (simp add: toLowerCase_def lower_char_def example_request_def)
  have e: "rq_query_email (example_chat_request meth hdr (Some ''someone@else.com''))
        = Some ''someone@else.com''" for meth hdr
    by (simp add: example_chat_request_def)
  have ne: "''someone@else.com'' \<noteq> []" by simp
  note t = get_messages_mismatched_email [OF req e [of GET "Some ''Bearer good''"] ne other,
      where verify = example_verify
        and rq' = "example_chat_request POST (Some ''Bearer good'') (Some ''someone@else.com'')"
        and u = "\<lparr>ap_userId = ''admin1'', ap_email = ''admin@shop.com''\<rparr>"
        and new_id = "''m4''"]
  from t have g: "get_messages example_verify (example_store example_thread 40) ''r1''
         (example_chat_request GET (Some ''Bearer good'') (Some ''someone@else.com''))
       = Fail 403 ''Forbidden: email does not match request''"
    by (rule conjunct1)
  have "optional_auth example_verify
          (example_chat_request POST (Some ''Bearer good'') (Some ''someone@else.com''))
        = Some \<lparr>ap_userId = ''admin1'', ap_email = ''admin@shop.com''\<rparr>
      \<and> rq_query_email (example_chat_request POST (Some ''Bearer good'') (Some ''someone@else.com''))
        = Some ''someone@else.com''
      \<and> \<not> list_ex (\<lambda>m. cm_id m = ''m4'') (chat_messages (example_store example_thread 40))
      \<and> (trim_or_null (rq_body (example_chat_request POST (Some ''Bearer good'') (Some ''someone@else.com''))) \<noteq> None
          \<or> or_null (rq_attachment_blob_url
                (example_chat_request POST (Some ''Bearer good'') (Some ''someone@else.com''))) \<noteq> None)"
    by (intro conjI example_auth e example_fresh example_content)
  with t [THEN conjunct2]
  have p: "\<exists>m db'. post_message example_verify (example_store example_thread 40) ''m4'' ''r1''
                 (example_chat_request POST (Some ''Bearer good'') (Some ''someone@else.com''))
               = (Created m, db')
             \<and> cm_sender m = Admin"
    by (rule mp)
  show ?thesis by (intro conjI req example_auth g p)
qed

end
